theory Spec2Isabelle
  imports Main
begin

section \<open>Python values used by \<^verbatim>\<open>apsystems_ecu.py\<close>\<close>

text \<open>
  A Python \<^verbatim>\<open>str\<close> is modelled as a \<^typ>\<open>string\<close> whose characters are the code
  points 0..255, so the mis-encoded degree marker of the source (U+00C2 U+00B0 followed by
  \<^verbatim>\<open>C\<close>) is three characters. Texts with code points above 255 are outside the model.

  Exceptions are values: \<open>Inl e\<close> is a raised exception, \<open>Inr v\<close> a returned value.
\<close>

datatype py_exc = ValueError | IndexError | AttributeError | ClientError

datatype log_entry = LogWarning py_exc | LogError py_exc

type_synonym log = "log_entry list"

subsection \<open>\<^verbatim>\<open>str.strip\<close>, \<^verbatim>\<open>str.replace\<close>, \<^verbatim>\<open>str.split\<close>\<close>

text \<open>The characters for which \<^verbatim>\<open>str.isspace\<close> holds, among the code points 0..255.\<close>

definition is_space :: "char \<Rightarrow> bool" where
  "is_space c \<longleftrightarrow>
     c \<in> set [CHR 0x09, CHR 0x0A, CHR 0x0B, CHR 0x0C, CHR 0x0D,
              CHR 0x1C, CHR 0x1D, CHR 0x1E, CHR 0x1F, CHR 0x20, CHR 0x85, CHR 0xA0]"

definition str_strip :: "string \<Rightarrow> string" where
  "str_strip s = rev (dropWhile is_space (rev (dropWhile is_space s)))"

definition starts_with :: "string \<Rightarrow> string \<Rightarrow> bool" where
  "starts_with s old \<longleftrightarrow> take (length old) s = old"

text \<open>
  \<^verbatim>\<open>s.replace(old, new)\<close>: every occurrence of \<open>old\<close>, found from the left without
  overlap, is replaced. With an empty \<open>old\<close> Python puts \<open>new\<close> before every character
  and at the end.
\<close>

function str_replace_ne :: "string \<Rightarrow> string \<Rightarrow> string \<Rightarrow> string" where
  "str_replace_ne old new [] = []"
| "str_replace_ne old new (c # cs) =
     (if old \<noteq> [] \<and> starts_with (c # cs) old
      then new @ str_replace_ne old new (drop (length old) (c # cs))
      else c # str_replace_ne old new cs)"
  by pat_completeness auto
termination
  by (relation "measure (\<lambda>(old, new, s). length s)") auto

definition str_replace :: "string \<Rightarrow> string \<Rightarrow> string \<Rightarrow> string" where
  "str_replace s old new =
     (if old = [] then new @ concat (map (\<lambda>c. c # new) s) else str_replace_ne old new s)"

text \<open>
  \<^verbatim>\<open>s.split(sep)\<close> for a one-character separator: the pieces between the occurrences
  of \<open>sep\<close>; the result always has at least one piece.
\<close>

fun str_split_acc :: "char \<Rightarrow> string \<Rightarrow> string \<Rightarrow> string list" where
  "str_split_acc sep piece [] = [rev piece]"
| "str_split_acc sep piece (c # cs) =
     (if c = sep then rev piece # str_split_acc sep [] cs
      else str_split_acc sep (c # piece) cs)"

definition str_split :: "string \<Rightarrow> char \<Rightarrow> string list" where
  "str_split s sep = str_split_acc sep [] s"

text \<open>\<^verbatim>\<open>xs[i]\<close> for a non-negative index: IndexError when out of range.\<close>

definition index :: "'a list \<Rightarrow> nat \<Rightarrow> py_exc + 'a" where
  "index xs i = (if i < length xs then Inr (xs ! i) else Inl IndexError)"

subsection \<open>The interpreter's functions taken as parameters\<close>

text \<open>
  The interpreter's \<^verbatim>\<open>float\<close> and \<^verbatim>\<open>datetime.datetime.strptime\<close> are parameters of
  the model: \<open>py_float s\<close> and \<open>strptime s fmt\<close> are \<open>None\<close> where the interpreter
  raises ValueError. \<open>float_zero\<close> is the literal \<^verbatim>\<open>0.0\<close>. The types \<open>'f\<close> of floats and
  \<open>'t\<close> of datetimes are left open. \<open>int_max_str_digits\<close> is the interpreter's limit
  on the number of digits \<^verbatim>\<open>int\<close> converts (\<^verbatim>\<open>sys.get_int_max_str_digits()\<close>, 4300 unless
  configured): 0 is no limit, and the interpreter accepts no other value below 640.
\<close>

record ('f, 't) builtins =
  py_float :: "string \<Rightarrow> 'f option"
  float_zero :: 'f
  strptime :: "string \<Rightarrow> string \<Rightarrow> 't option"
  int_max_str_digits :: nat

subsection \<open>\<^verbatim>\<open>int(str)\<close>\<close>

text \<open>
  \<^verbatim>\<open>int(s)\<close> in base 10: surrounding whitespace is ignored, then an optional sign, then
  decimal digits, where a single underscore may stand between two digits. Anything else
  raises ValueError. Among the code points 0..255 the decimal digits are \<^verbatim>\<open>0\<close>..\<^verbatim>\<open>9\<close>.

  The whitespace \<^verbatim>\<open>int\<close> ignores is not that of \<^verbatim>\<open>str.strip\<close>: U+001C..U+001F are
  stripped by \<^verbatim>\<open>str.strip\<close> and rejected by \<^verbatim>\<open>int\<close>.

  A text with more digits than the interpreter's limit raises ValueError: the digits are
  counted without sign, whitespace and underscores, leading zeros included, and the limit
  applies to more than 640 digits only.
\<close>

definition is_int_space :: "char \<Rightarrow> bool" where
  "is_int_space c \<longleftrightarrow>
     c \<in> set [CHR 0x09, CHR 0x0A, CHR 0x0B, CHR 0x0C, CHR 0x0D, CHR 0x20, CHR 0x85, CHR 0xA0]"

definition int_strip :: "string \<Rightarrow> string" where
  "int_strip s = rev (dropWhile is_int_space (rev (dropWhile is_int_space s)))"

definition is_digit :: "char \<Rightarrow> bool" where
  "is_digit c \<longleftrightarrow> c \<in> set ''0123456789''"

definition digit_val :: "char \<Rightarrow> int" where
  "digit_val c = int (of_char c) - 48"

fun digits_val :: "int \<Rightarrow> string \<Rightarrow> int option" where
  "digits_val acc [] = Some acc"
| "digits_val acc [c] = (if is_digit c then Some (10 * acc + digit_val c) else None)"
| "digits_val acc (c # d # ds) =
     (if c = CHR ''_''
      then (if is_digit d then digits_val (10 * acc + digit_val d) ds else None)
      else if is_digit c then digits_val (10 * acc + digit_val c) (d # ds)
      else None)"

definition unsigned_val :: "string \<Rightarrow> int option" where
  "unsigned_val s =
     (case s of
        [] \<Rightarrow> None
      | c # cs \<Rightarrow> if is_digit c then digits_val (digit_val c) cs else None)"

definition exceeds_digit_limit :: "nat \<Rightarrow> string \<Rightarrow> bool" where
  "exceeds_digit_limit limit s \<longleftrightarrow>
     640 < length (filter is_digit s) \<and> 0 < limit \<and> limit < length (filter is_digit s)"

definition py_int :: "('f, 't) builtins \<Rightarrow> string \<Rightarrow> py_exc + int" where
  "py_int B s =
     (let t = int_strip s;
          r = (case t of
                 [] \<Rightarrow> None
               | c # cs \<Rightarrow>
                   if exceeds_digit_limit (int_max_str_digits B) t then None
                   else if c = CHR ''-'' then map_option uminus (unsigned_val cs)
                   else if c = CHR ''+'' then unsigned_val cs
                   else unsigned_val t)
      in case r of None \<Rightarrow> Inl ValueError | Some v \<Rightarrow> Inr v)"

definition raise_none :: "'a option \<Rightarrow> py_exc + 'a" where
  "raise_none r = (case r of None \<Rightarrow> Inl ValueError | Some v \<Rightarrow> Inr v)"

text \<open>A variable that holds a float on one path and the int literal \<^verbatim>\<open>0\<close> on another.\<close>

datatype 'f py_number = PyInt int | PyFloat 'f

text \<open>\<^verbatim>\<open>f\<close> of the source: a datetime, or the int literal \<^verbatim>\<open>0\<close> after a failed parse.\<close>

datatype 't py_time = PyDatetime 't | PyTimeInt int

subsection \<open>Sequencing and \<^verbatim>\<open>try\<close>/\<^verbatim>\<open>except\<close>\<close>

definition bind_exc :: "py_exc + 'a \<Rightarrow> ('a \<Rightarrow> py_exc + 'b) \<Rightarrow> py_exc + 'b" where
  "bind_exc m f = (case m of Inl e \<Rightarrow> Inl e | Inr v \<Rightarrow> f v)"

definition map_exc :: "('a \<Rightarrow> 'b) \<Rightarrow> py_exc + 'a \<Rightarrow> py_exc + 'b" where
  "map_exc f m = (case m of Inl e \<Rightarrow> Inl e | Inr v \<Rightarrow> Inr (f v))"

text \<open>
  \<^verbatim>\<open>try: x = m  except Exception as e: x = d; _LOGGER.warning(str(e))\<close>: the value and
  the log entries written.
\<close>

definition try_warning :: "py_exc + 'a \<Rightarrow> 'a \<Rightarrow> 'a \<times> log" where
  "try_warning m d = (case m of Inl e \<Rightarrow> (d, [LogWarning e]) | Inr v \<Rightarrow> (v, []))"

text \<open>The same with \<^verbatim>\<open>_LOGGER.error(str(e))\<close>; \<open>d\<close> is the state left when \<open>m\<close> raised.\<close>

definition try_error :: "py_exc + 'a \<Rightarrow> 'a \<Rightarrow> 'a \<times> log" where
  "try_error m d = (case m of Inl e \<Rightarrow> (d, [LogError e]) | Inr v \<Rightarrow> (v, []))"

section \<open>The data classes\<close>

record SolarModule =
  sm_id :: string
  sm_power :: int
  sm_dcvoltage :: int
  sm_gridvoltage :: int

record ('f, 't) InverterData =
  inv_id :: string
  inv_freq :: "'f py_number"
  inv_temperature :: int
  inv_reportingtime :: "'t py_time"
  inv_solarmodules :: "SolarModule list"

record ('f, 't) EcuData =
  ecu_id :: string
  ecu_alias :: string
  ecu_address :: string
  ecu_power :: int
  ecu_lifetimeGeneration :: "'f py_number"
  ecu_dailyEnergy :: "'f py_number"
  ecu_inverters :: "('f, 't) InverterData list"
  ecu_numberOfInverters :: int
  ecu_numberOfInvertersOnline :: int
  ecu_softwareVersion :: string

definition SolarModule_init :: "string \<Rightarrow> int \<Rightarrow> int \<Rightarrow> int \<Rightarrow> SolarModule" where
  "SolarModule_init i pwr dcvoltage gridvoltage =
     \<lparr>sm_id = i, sm_power = pwr, sm_dcvoltage = dcvoltage, sm_gridvoltage = gridvoltage\<rparr>"

definition InverterData_init ::
  "string \<Rightarrow> 'f py_number \<Rightarrow> int \<Rightarrow> 't py_time \<Rightarrow> ('f, 't) InverterData" where
  "InverterData_init i freq temp reportingtime =
     \<lparr>inv_id = i, inv_freq = freq, inv_temperature = temp,
      inv_reportingtime = reportingtime, inv_solarmodules = []\<rparr>"

definition add_solar_module ::
  "('f, 't) InverterData \<Rightarrow> SolarModule \<Rightarrow> ('f, 't) InverterData" where
  "add_solar_module iv sm = iv\<lparr>inv_solarmodules := inv_solarmodules iv @ [sm]\<rparr>"

definition EcuData_init ::
  "string \<Rightarrow> string \<Rightarrow> string \<Rightarrow> 'f py_number \<Rightarrow> int \<Rightarrow> 'f py_number \<Rightarrow> int \<Rightarrow> int \<Rightarrow> string
   \<Rightarrow> ('f, 't) EcuData" where
  "EcuData_init i address alias lifetimeGeneration pwr dailyEnergy numberOfInverters
     numberOfInvertersOnline softwareVersion =
     \<lparr>ecu_id = i, ecu_alias = alias, ecu_address = address, ecu_power = pwr,
      ecu_lifetimeGeneration = lifetimeGeneration, ecu_dailyEnergy = dailyEnergy,
      ecu_inverters = [], ecu_numberOfInverters = numberOfInverters,
      ecu_numberOfInvertersOnline = numberOfInvertersOnline,
      ecu_softwareVersion = softwareVersion\<rparr>"

definition add_inverter :: "('f, 't) EcuData \<Rightarrow> ('f, 't) InverterData \<Rightarrow> ('f, 't) EcuData" where
  "add_inverter ecu iv = ecu\<lparr>ecu_inverters := ecu_inverters ecu @ [iv]\<rparr>"

section \<open>Parsed documents\<close>

text \<open>
  What \<^verbatim>\<open>get_ecu_data\<close> reads of a parsed page is its first table, \<^verbatim>\<open>soup.body.table\<close>:
  \<^item> \<open>tbl_ths\<close>: the \<^verbatim>\<open>th\<close> cells that have a single string, in document order, each with
    that string and the text of its next \<^verbatim>\<open>td\<close> sibling, if there is one;
  \<^item> \<open>tbl_trs\<close>: the \<^verbatim>\<open>tr\<close> rows in document order, each as the texts of the cells
    \<^verbatim>\<open>row.find_all("td")\<close>.
  A page without a body or without a table is \<open>None\<close>: the attribute access on
  \<^verbatim>\<open>None\<close> raises AttributeError.
\<close>

type_synonym row = "string list"

record table =
  tbl_ths :: "(string \<times> string option) list"
  tbl_trs :: "row list"

type_synonym soup = "table option"

definition body_table :: "soup \<Rightarrow> py_exc + table" where
  "body_table doc = (case doc of None \<Rightarrow> Inl AttributeError | Some t \<Rightarrow> Inr t)"

text \<open>
  \<^verbatim>\<open>soup.body.table.find("th", text=label).find_next_sibling("td").text\<close> (lines 78-82 and
  in every summary field).
\<close>

definition find_labeled_value :: "soup \<Rightarrow> string \<Rightarrow> py_exc + string" where
  "find_labeled_value doc label =
     bind_exc (body_table doc) (\<lambda>t.
       case List.find (\<lambda>th. fst th = label) (tbl_ths t) of
         None \<Rightarrow> Inl AttributeError
       | Some th \<Rightarrow> (case snd th of None \<Rightarrow> Inl AttributeError | Some txt \<Rightarrow> Inr txt))"

section \<open>The summary page (lines 78-156)\<close>

definition summary_lifetimegen :: "('f, 't) builtins \<Rightarrow> soup \<Rightarrow> 'f py_number \<times> log" where
  "summary_lifetimegen B doc =
     try_warning
       (bind_exc (find_labeled_value doc ''Lifetime generation'') (\<lambda>txt.
          map_exc PyFloat (raise_none (py_float B (str_replace txt '' kWh'' '''')))))
       (PyInt 0)"

definition summary_power :: "('f, 't) builtins \<Rightarrow> soup \<Rightarrow> int \<times> log" where
  "summary_power B doc =
     try_warning
       (bind_exc (find_labeled_value doc ''Last System Power'') (\<lambda>txt.
          py_int B (str_replace txt '' W'' '''')))
       0"

definition summary_energy :: "('f, 't) builtins \<Rightarrow> soup \<Rightarrow> 'f py_number \<times> log" where
  "summary_energy B doc =
     try_warning
       (bind_exc (find_labeled_value doc ''Generation of Current Day'') (\<lambda>txt.
          map_exc PyFloat (raise_none (py_float B (str_replace txt '' kWh'' '''')))))
       (PyFloat (float_zero B))"

definition summary_numberOfInverters :: "('f, 't) builtins \<Rightarrow> soup \<Rightarrow> int \<times> log" where
  "summary_numberOfInverters B doc =
     try_warning (bind_exc (find_labeled_value doc ''Number of Inverters'') (py_int B)) 0"

definition summary_numberOfInvertersOnline :: "('f, 't) builtins \<Rightarrow> soup \<Rightarrow> int \<times> log" where
  "summary_numberOfInvertersOnline B doc =
     try_warning (bind_exc (find_labeled_value doc ''Last Number of Inverters Online'') (py_int B)) 0"

definition summary_softwareVersion :: "soup \<Rightarrow> string \<times> log" where
  "summary_softwareVersion doc =
     try_warning (find_labeled_value doc ''Current Software Version'') ''''"

text \<open>
  Lines 78-156: the identity is read outside any inner \<^verbatim>\<open>try\<close>, so its exception leaves
  the block; the six other fields are read each in its own \<^verbatim>\<open>try\<close>.
\<close>

definition extract_summary ::
  "('f, 't) builtins \<Rightarrow> string \<Rightarrow> string \<Rightarrow> soup \<Rightarrow> (py_exc + ('f, 't) EcuData) \<times> log" where
  "extract_summary B address alias doc =
     (case find_labeled_value doc ''ECU ID'' of
        Inl e \<Rightarrow> (Inl e, [])
      | Inr i \<Rightarrow>
          (let (lifetimegen, l1) = summary_lifetimegen B doc;
               (pwr, l2) = summary_power B doc;
               (energy, l3) = summary_energy B doc;
               (numberOfInverters, l4) = summary_numberOfInverters B doc;
               (numberOfInvertersOnline, l5) = summary_numberOfInvertersOnline B doc;
               (softwareVersion, l6) = summary_softwareVersion doc
           in (Inr (EcuData_init i address alias lifetimegen pwr energy numberOfInverters
                      numberOfInvertersOnline softwareVersion),
               l1 @ l2 @ l3 @ l4 @ l5 @ l6)))"

section \<open>The realtime-data rows (lines 165-267)\<close>

text \<open>
  The expressions inside the guarded reads:
  \<^verbatim>\<open>int(txt.replace(unit, "").strip())\<close>, \<^verbatim>\<open>float(txt.replace(unit, "").strip())\<close> and
  \<^verbatim>\<open>datetime.datetime.strptime(txt.strip(), "%Y-%m-%d %H:%M:%S")\<close>.
\<close>

definition int_text :: "('f, 't) builtins \<Rightarrow> string \<Rightarrow> string \<Rightarrow> py_exc + int" where
  "int_text B txt unit = py_int B (str_strip (str_replace txt unit ''''))"

definition float_text :: "('f, 't) builtins \<Rightarrow> string \<Rightarrow> string \<Rightarrow> py_exc + 'f py_number" where
  "float_text B txt unit =
     map_exc PyFloat (raise_none (py_float B (str_strip (str_replace txt unit ''''))))"

definition time_text :: "('f, 't) builtins \<Rightarrow> string \<Rightarrow> py_exc + 't py_time" where
  "time_text B txt =
     map_exc PyDatetime (raise_none (strptime B (str_strip txt) ''%Y-%m-%d %H:%M:%S''))"

text \<open>
  One guarded cell read: \<^verbatim>\<open>try: v = int(cells[i].text.replace(unit, "").strip())\<close>
  \<^verbatim>\<open>except Exception as e: v = 0; _LOGGER.warning(str(e))\<close>.
\<close>

definition int_cell :: "('f, 't) builtins \<Rightarrow> row \<Rightarrow> nat \<Rightarrow> string \<Rightarrow> int \<times> log" where
  "int_cell B cells i unit =
     try_warning (bind_exc (index cells i) (\<lambda>txt. int_text B txt unit)) 0"

text \<open>Lines 186-192: the frequency, with the int \<^verbatim>\<open>0\<close> as default.\<close>

definition float_cell :: "('f, 't) builtins \<Rightarrow> row \<Rightarrow> nat \<Rightarrow> string \<Rightarrow> 'f py_number \<times> log" where
  "float_cell B cells i unit =
     try_warning (bind_exc (index cells i) (\<lambda>txt. float_text B txt unit)) (PyInt 0)"

text \<open>Lines 208-214: the report timestamp, with the int \<^verbatim>\<open>0\<close> as default.\<close>

definition time_cell :: "('f, 't) builtins \<Rightarrow> row \<Rightarrow> nat \<Rightarrow> 't py_time \<times> log" where
  "time_cell B cells i =
     try_warning (bind_exc (index cells i) (\<lambda>txt. time_text B txt)) (PyTimeInt 0)"

text \<open>The unit removed from the temperature cell, as the source file spells it.\<close>

definition degree_C :: string where
  "degree_C = [CHR 0xC2, CHR 0xB0, CHR ''C'']"

text \<open>
  Lines 171-232, a row of 7 cells. \<open>ecu\<close> and \<open>currInverter\<close> are the values of the two
  variables before the row; the result is their values after it and the log entries
  written. \<^verbatim>\<open>id_parts[0]\<close> is read outside any inner \<^verbatim>\<open>try\<close>.
\<close>

definition new_inverter_row ::
  "('f, 't) builtins \<Rightarrow> ('f, 't) EcuData \<Rightarrow> ('f, 't) InverterData option \<Rightarrow> string \<Rightarrow> row
   \<Rightarrow> (py_exc + ('f, 't) EcuData \<times> ('f, 't) InverterData option) \<times> log" where
  "new_inverter_row B ecu currInverter ident cells =
     (let (pwr, l1) = int_cell B cells 1 ''W'';
          (dc, l2) = int_cell B cells 2 ''V'';
          (hz, l3) = float_cell B cells 3 ''Hz'';
          (ac, l4) = int_cell B cells 4 ''V'';
          (temp, l5) = int_cell B cells 5 degree_C;
          (f, l6) = time_cell B cells 6;
          ecu' = (case currInverter of None \<Rightarrow> ecu | Some c \<Rightarrow> add_inverter ecu c);
          id_parts = str_split ident CHR ''-''
      in case index id_parts 0 of
           Inl e \<Rightarrow> (Inl e, l1 @ l2 @ l3 @ l4 @ l5 @ l6)
         | Inr p0 \<Rightarrow>
             (let opened = InverterData_init p0 hz temp f;
                  (c', l7) =
                    try_error
                      (map_exc (\<lambda>p1. add_solar_module opened (SolarModule_init p1 pwr dc ac))
                         (index id_parts 1))
                      opened
              in (Inr (ecu', Some c'), l1 @ l2 @ l3 @ l4 @ l5 @ l6 @ l7)))"

text \<open>Lines 234-261, a row of another length while an inverter \<open>c\<close> is open.\<close>

definition continuation_row ::
  "('f, 't) builtins \<Rightarrow> ('f, 't) InverterData \<Rightarrow> string \<Rightarrow> row \<Rightarrow> ('f, 't) InverterData \<times> log" where
  "continuation_row B c ident cells =
     (let (pwr, l1) = int_cell B cells 1 ''W'';
          (dc, l2) = int_cell B cells 2 ''V'';
          (ac, l3) = int_cell B cells 3 ''V'';
          (c', l4) =
            try_error
              (map_exc (\<lambda>p1. add_solar_module c (SolarModule_init p1 pwr dc ac))
                 (index (str_split ident CHR ''-'') 1))
              c
      in (c', l1 @ l2 @ l3 @ l4))"

text \<open>Lines 167-261: the body of the loop over the rows.\<close>

definition process_row ::
  "('f, 't) builtins \<Rightarrow> ('f, 't) EcuData \<Rightarrow> ('f, 't) InverterData option \<Rightarrow> row
   \<Rightarrow> (py_exc + ('f, 't) EcuData \<times> ('f, 't) InverterData option) \<times> log" where
  "process_row B ecu currInverter cells =
     (if length cells > 0
      then (let ident = str_strip (cells ! 0)
            in if length cells = 7 then new_inverter_row B ecu currInverter ident cells
               else (case currInverter of
                       None \<Rightarrow> (Inr (ecu, currInverter), [])
                     | Some c \<Rightarrow>
                         (let (c', l) = continuation_row B c ident cells
                          in (Inr (ecu, Some c'), l))))
      else (Inr (ecu, currInverter), []))"

text \<open>Line 166: the loop; an exception that leaves the body ends it.\<close>

fun rows_loop ::
  "('f, 't) builtins \<Rightarrow> ('f, 't) EcuData \<Rightarrow> ('f, 't) InverterData option \<Rightarrow> row list
   \<Rightarrow> (py_exc + ('f, 't) EcuData \<times> ('f, 't) InverterData option) \<times> log" where
  "rows_loop B ecu currInverter [] = (Inr (ecu, currInverter), [])"
| "rows_loop B ecu currInverter (cells # rest) =
     (case process_row B ecu currInverter cells of
        (Inl e, l) \<Rightarrow> (Inl e, l)
      | (Inr (ecu', c'), l) \<Rightarrow>
          (case rows_loop B ecu' c' rest of (r, l') \<Rightarrow> (r, l @ l')))"

text \<open>Lines 263-267: the inverter still open after the loop is appended.\<close>

definition flush_open :: "('f, 't) EcuData \<Rightarrow> ('f, 't) InverterData option \<Rightarrow> ('f, 't) EcuData" where
  "flush_open ecu currInverter =
     (case currInverter of None \<Rightarrow> ecu | Some c \<Rightarrow> add_inverter ecu c)"

text \<open>Lines 165-267: \<open>currInverter = None\<close>, the loop, the last flush.\<close>

definition reconstruct ::
  "('f, 't) builtins \<Rightarrow> ('f, 't) EcuData \<Rightarrow> row list \<Rightarrow> (py_exc + ('f, 't) EcuData) \<times> log" where
  "reconstruct B ecu rows =
     (case rows_loop B ecu None rows of
        (Inl e, l) \<Rightarrow> (Inl e, l)
      | (Inr (ecu', c), l) \<Rightarrow> (Inr (flush_open ecu' c), l))"

section \<open>\<^verbatim>\<open>EcuClient.get_ecu_data\<close> (lines 71-272)\<close>

text \<open>
  The network is a function from the requested URL to the parsed page, or to the exception
  that \<^verbatim>\<open>session.get\<close> or \<^verbatim>\<open>resp.read\<close> raises. An outcome is what the call returns,
  the log entries it wrote and the URLs it requested, in order.
\<close>

type_synonym web = "string \<Rightarrow> py_exc + soup"

record 'a outcome =
  returned :: 'a
  logged :: log
  requested :: "string list"

text \<open>The body of the outer \<^verbatim>\<open>try\<close> (lines 73-269).\<close>

definition get_ecu_data_try ::
  "('f, 't) builtins \<Rightarrow> web \<Rightarrow> string \<Rightarrow> string \<Rightarrow> (py_exc + ('f, 't) EcuData) outcome" where
  "get_ecu_data_try B net address alias =
     (let url = ''http://'' @ address
      in case net url of
           Inl e \<Rightarrow> \<lparr>returned = Inl e, logged = [], requested = [url]\<rparr>
         | Inr doc \<Rightarrow>
             (case extract_summary B address alias doc of
                (Inl e, l) \<Rightarrow> \<lparr>returned = Inl e, logged = l, requested = [url]\<rparr>
              | (Inr ecuData, l) \<Rightarrow>
                  (let url_rt = ''http://'' @ address @ ''/index.php/realtimedata''
                   in case bind_exc (net url_rt) body_table of
                        Inl e \<Rightarrow> \<lparr>returned = Inl e, logged = l, requested = [url, url_rt]\<rparr>
                      | Inr t \<Rightarrow>
                          (case reconstruct B ecuData (tbl_trs t) of
                             (r, l') \<Rightarrow>
                               \<lparr>returned = r, logged = l @ l', requested = [url, url_rt]\<rparr>))))"

text \<open>Lines 71-272: the bare \<^verbatim>\<open>except: return None\<close> around the body.\<close>

definition get_ecu_data ::
  "('f, 't) builtins \<Rightarrow> web \<Rightarrow> string \<Rightarrow> string \<Rightarrow> ('f, 't) EcuData option outcome" where
  "get_ecu_data B net address alias =
     (let out = get_ecu_data_try B net address alias
      in \<lparr>returned = (case returned out of Inl e \<Rightarrow> None | Inr ecuData \<Rightarrow> Some ecuData),
          logged = logged out, requested = requested out\<rparr>)"

section \<open>An interpreter for the examples\<close>

text \<open>
  The examples below need a value for the parameters. Here a float and a datetime are
  represented by the text they were read from; \<open>float\<close> accepts decimal literals
  \<^verbatim>\<open>digits\<close> and \<^verbatim>\<open>digits.digits\<close> and \<open>strptime\<close> accepts texts of the shape
  \<^verbatim>\<open>dddd-dd-dd dd:dd:dd\<close>. It is used only on texts on which the interpreter's functions
  raise or return as it does.
\<close>

definition decimal_literal :: "string \<Rightarrow> bool" where
  "decimal_literal s =
     (case str_split s CHR ''.'' of
        [a] \<Rightarrow> a \<noteq> [] \<and> list_all is_digit a
      | [a, b] \<Rightarrow> a \<noteq> [] \<and> b \<noteq> [] \<and> list_all is_digit (a @ b)
      | _ \<Rightarrow> False)"

definition timestamp_shape :: "string \<Rightarrow> bool" where
  "timestamp_shape s =
     list_all2 (\<lambda>p c. if p = CHR ''d'' then is_digit c else c = p) ''dddd-dd-dd dd:dd:dd'' s"

definition example_builtins :: "(string, string) builtins" where
  "example_builtins =
     \<lparr>py_float = (\<lambda>s. if decimal_literal (str_strip s) then Some (str_strip s) else None),
      float_zero = ''0.0'',
      strptime = (\<lambda>s fmt. if fmt = ''%Y-%m-%d %H:%M:%S'' \<and> timestamp_shape s
                           then Some s else None),
      int_max_str_digits = 4300\<rparr>"

definition empty_ecu :: "(string, string) EcuData" where
  "empty_ecu = EcuData_init ''216000012345'' ''192.168.1.10'' ''roof'' (PyInt 0) 0 (PyInt 0) 0 0 ''''"

text \<open>The number of modules of each inverter of a snapshot, for reading a result.\<close>

definition module_counts :: "('f, 't) InverterData list \<Rightarrow> nat list" where
  "module_counts invs = map (\<lambda>iv. length (inv_solarmodules iv)) invs"

definition snapshot_module_counts :: "(py_exc + ('f, 't) EcuData) \<times> log \<Rightarrow> nat list" where
  "snapshot_module_counts r =
     (case fst r of Inl e \<Rightarrow> [] | Inr ecu \<Rightarrow> module_counts (ecu_inverters ecu))"

section \<open>Facts about the string operations\<close>

lemma str_split_acc_nonempty: "str_split_acc sep piece s \<noteq> []"
  by (induction s arbitrary: piece) auto

lemma str_split_nonempty: "str_split s sep \<noteq> []"
  by (simp add: str_split_def str_split_acc_nonempty)

lemma str_split_acc_no_sep: "sep \<notin> set s \<Longrightarrow> str_split_acc sep piece s = [rev piece @ s]"
  by (induction s arbitrary: piece) auto

lemma str_split_no_sep: "sep \<notin> set s \<Longrightarrow> str_split s sep = [s]"
  by (simp add: str_split_def str_split_acc_no_sep)

lemma str_split_acc_sep: "sep \<in> set s \<Longrightarrow> 2 \<le> length (str_split_acc sep piece s)"
proof (induction s arbitrary: piece)
  case Nil
  then show ?case by simp
next
  case (Cons c cs)
  show ?case
  proof (cases "c = sep")
    case True
    have "str_split_acc sep [] cs \<noteq> []" by (rule str_split_acc_nonempty)
    then have "1 \<le> length (str_split_acc sep [] cs)"
      by (cases "str_split_acc sep [] cs") auto
    with True show ?thesis by simp
  next
    case False
    with Cons show ?thesis by simp
  qed
qed

lemma str_split_sep: "sep \<in> set s \<Longrightarrow> 2 \<le> length (str_split s sep)"
  by (simp add: str_split_def str_split_acc_sep)

lemma index_0_split: "index (str_split s sep) 0 = Inr (hd (str_split s sep))"
  using str_split_nonempty [of s sep] by (cases "str_split s sep") (auto simp: index_def)

section \<open>Facts about one row and about the loop\<close>

lemma new_inverter_row_eq:
  "new_inverter_row B ecu cur ident cells =
     (Inr (flush_open ecu cur,
           Some \<lparr>inv_id = hd (str_split ident CHR ''-''),
                 inv_freq = fst (float_cell B cells 3 ''Hz''),
                 inv_temperature = fst (int_cell B cells 5 degree_C),
                 inv_reportingtime = fst (time_cell B cells 6),
                 inv_solarmodules =
                   (case index (str_split ident CHR ''-'') 1 of
                      Inl e \<Rightarrow> []
                    | Inr p1 \<Rightarrow>
                        [SolarModule_init p1 (fst (int_cell B cells 1 ''W''))
                           (fst (int_cell B cells 2 ''V'')) (fst (int_cell B cells 4 ''V''))])\<rparr>),
      snd (int_cell B cells 1 ''W'') @ snd (int_cell B cells 2 ''V'')
        @ snd (float_cell B cells 3 ''Hz'') @ snd (int_cell B cells 4 ''V'')
        @ snd (int_cell B cells 5 degree_C) @ snd (time_cell B cells 6)
        @ (case index (str_split ident CHR ''-'') 1 of
             Inl e \<Rightarrow> [LogError e] | Inr p1 \<Rightarrow> []))"
  by (cases "index (str_split ident CHR ''-'') 1")
     (simp_all add: new_inverter_row_def index_0_split flush_open_def Let_def
        InverterData_init_def add_solar_module_def try_error_def map_exc_def
        split: prod.splits)

lemma continuation_row_eq:
  "continuation_row B c ident cells =
     (c\<lparr>inv_solarmodules := inv_solarmodules c @
          (case index (str_split ident CHR ''-'') 1 of
             Inl e \<Rightarrow> []
           | Inr p1 \<Rightarrow>
               [SolarModule_init p1 (fst (int_cell B cells 1 ''W''))
                  (fst (int_cell B cells 2 ''V'')) (fst (int_cell B cells 3 ''V''))])\<rparr>,
      snd (int_cell B cells 1 ''W'') @ snd (int_cell B cells 2 ''V'')
        @ snd (int_cell B cells 3 ''V'')
        @ (case index (str_split ident CHR ''-'') 1 of
             Inl e \<Rightarrow> [LogError e] | Inr p1 \<Rightarrow> []))"
  by (cases "index (str_split ident CHR ''-'') 1")
     (simp_all add: continuation_row_def Let_def add_solar_module_def try_error_def
        map_exc_def split: prod.splits)

lemma process_row_empty: "process_row B ecu cur [] = (Inr (ecu, cur), [])"
  by (simp add: process_row_def)

lemma process_row_new:
  "length cells = 7 \<Longrightarrow>
   process_row B ecu cur cells = new_inverter_row B ecu cur (str_strip (cells ! 0)) cells"
  by (simp add: process_row_def)

lemma process_row_closed:
  "cells \<noteq> [] \<Longrightarrow> length cells \<noteq> 7 \<Longrightarrow> process_row B ecu None cells = (Inr (ecu, None), [])"
  by (simp add: process_row_def)

lemma process_row_open:
  "cells \<noteq> [] \<Longrightarrow> length cells \<noteq> 7 \<Longrightarrow>
   process_row B ecu (Some c) cells =
     (Inr (ecu, Some (fst (continuation_row B c (str_strip (cells ! 0)) cells))),
      snd (continuation_row B c (str_strip (cells ! 0)) cells))"
  by (simp add: process_row_def split: prod.splits)

lemma process_row_returns:
  "\<exists>ecu' c' l. process_row B ecu cur cells = (Inr (ecu', c'), l)"
proof (cases "cells = []")
  case True
  then show ?thesis by (simp add: process_row_empty)
next
  case ne: False
  show ?thesis
  proof (cases "length cells = 7")
    case True
    then show ?thesis by (simp add: process_row_new new_inverter_row_eq)
  next
    case False
    with ne show ?thesis
      by (cases cur) (simp_all add: process_row_closed process_row_open)
  qed
qed

lemma rows_loop_returns:
  "\<exists>ecu' c' l. rows_loop B ecu cur rows = (Inr (ecu', c'), l)"
proof (induction rows arbitrary: ecu cur)
  case Nil
  show ?case by simp
next
  case (Cons cells rest)
  obtain ecu1 c1 l1 where s: "process_row B ecu cur cells = (Inr (ecu1, c1), l1)"
    using process_row_returns by blast
  obtain ecu2 c2 l2 where "rows_loop B ecu1 c1 rest = (Inr (ecu2, c2), l2)"
    using Cons.IH by blast
  with s show ?case by simp
qed

lemma rows_loop_append:
  "rows_loop B ecu cur rows = (Inr (ecu1, c1), l1) \<Longrightarrow>
   rows_loop B ecu cur (rows @ later) =
     (fst (rows_loop B ecu1 c1 later), l1 @ snd (rows_loop B ecu1 c1 later))"
proof (induction rows arbitrary: ecu cur l1)
  case Nil
  then show ?case by simp
next
  case (Cons cells rest)
  obtain ecu2 c2 l2 where s: "process_row B ecu cur cells = (Inr (ecu2, c2), l2)"
    using process_row_returns by blast
  define l3 where "l3 = snd (rows_loop B ecu2 c2 rest)"
  have r: "rows_loop B ecu2 c2 rest = (Inr (ecu1, c1), l3)" and l: "l1 = l2 @ l3"
    using Cons.prems s unfolding l3_def
    by (cases "rows_loop B ecu2 c2 rest"; simp)+
  from Cons.IH [OF r] s l show ?case by (simp add: case_prod_unfold)
qed

lemma rows_loop_skip_empty:
  "\<forall>r \<in> set pre. r = [] \<Longrightarrow> rows_loop B ecu cur pre = (Inr (ecu, cur), [])"
  by (induction pre) (auto simp: process_row_empty)

lemma index_1_split_sep:
  "CHR ''-'' \<in> set s \<Longrightarrow>
   index (str_split s CHR ''-'') 1 = Inr (str_split s CHR ''-'' ! 1)"
  using str_split_sep [of "CHR ''-''" s] by (simp add: index_def)

lemma index_1_split_no_sep:
  "CHR ''-'' \<notin> set s \<Longrightarrow> index (str_split s CHR ''-'') 1 = Inl IndexError"
  by (simp add: str_split_no_sep index_def)

lemma hd_split_no_sep: "CHR ''-'' \<notin> set s \<Longrightarrow> hd (str_split s CHR ''-'') = s"
  by (simp add: str_split_no_sep)

lemma flush_open_Some:
  "ecu_inverters (flush_open ecu (Some c)) = ecu_inverters ecu @ [c]"
  by (simp add: flush_open_def add_inverter_def)

lemma flush_open_None: "flush_open ecu None = ecu"
  by (simp add: flush_open_def)

lemma process_row_inverter_ids:
  "\<exists>ecu1 c1 l1. process_row B ecu cur r = (Inr (ecu1, c1), l1)
     \<and> map inv_id (ecu_inverters (flush_open ecu1 c1)) =
         map inv_id (ecu_inverters (flush_open ecu cur))
           @ (if length r = 7 then [hd (str_split (str_strip (r ! 0)) CHR ''-'')] else [])"
proof (cases "r = []")
  case True
  then show ?thesis by (simp add: process_row_empty)
next
  case ne: False
  show ?thesis
  proof (cases "length r = 7")
    case True
    then show ?thesis
      by (simp add: process_row_new new_inverter_row_eq flush_open_Some)
  next
    case False
    show ?thesis
    proof (cases cur)
      case None
      with ne False show ?thesis by (simp add: process_row_closed)
    next
      case (Some c)
      with ne False show ?thesis
        by (simp add: process_row_open continuation_row_eq flush_open_Some)
    qed
  qed
qed

lemma rows_loop_inverter_ids:
  "\<exists>ecu' c l. rows_loop B ecu cur rows = (Inr (ecu', c), l)
     \<and> map inv_id (ecu_inverters (flush_open ecu' c)) =
         map inv_id (ecu_inverters (flush_open ecu cur))
           @ map (\<lambda>r. hd (str_split (str_strip (r ! 0)) CHR ''-''))
               (filter (\<lambda>r. length r = 7) rows)"
proof (induction rows arbitrary: ecu cur)
  case Nil
  show ?case by simp
next
  case (Cons r rest)
  obtain ecu1 c1 l1 where s: "process_row B ecu cur r = (Inr (ecu1, c1), l1)"
    and i1: "map inv_id (ecu_inverters (flush_open ecu1 c1)) =
         map inv_id (ecu_inverters (flush_open ecu cur))
           @ (if length r = 7 then [hd (str_split (str_strip (r ! 0)) CHR ''-'')] else [])"
    using process_row_inverter_ids [of B ecu cur r] by blast
  obtain ecu2 c2 l2 where t: "rows_loop B ecu1 c1 rest = (Inr (ecu2, c2), l2)"
    and i2: "map inv_id (ecu_inverters (flush_open ecu2 c2)) =
         map inv_id (ecu_inverters (flush_open ecu1 c1))
           @ map (\<lambda>r. hd (str_split (str_strip (r ! 0)) CHR ''-''))
               (filter (\<lambda>r. length r = 7) rest)"
    using Cons.IH [of ecu1 c1] by blast
  from s t have "rows_loop B ecu cur (r # rest) = (Inr (ecu2, c2), l1 @ l2)" by simp
  moreover from i1 i2 have "map inv_id (ecu_inverters (flush_open ecu2 c2)) =
         map inv_id (ecu_inverters (flush_open ecu cur))
           @ map (\<lambda>r. hd (str_split (str_strip (r ! 0)) CHR ''-''))
               (filter (\<lambda>r. length r = 7) (r # rest))" by simp
  ultimately show ?case by blast
qed

lemma new_row_module_count:
  "length cells = 7 \<Longrightarrow>
   \<exists>c' l. process_row B ecu cur cells = (Inr (flush_open ecu cur, Some c'), l)
     \<and> fst (process_row B ecu' cur' cells) = Inr (flush_open ecu' cur', Some c')
     \<and> inv_id c' = hd (str_split (str_strip (cells ! 0)) CHR ''-'')
     \<and> length (inv_solarmodules c') =
         (if CHR ''-'' \<in> set (str_strip (cells ! 0)) then 1 else 0)"
proof (cases "CHR ''-'' \<in> set (str_strip (cells ! 0))")
  case True
  assume len: "length cells = 7"
  show ?thesis
    unfolding process_row_new [OF len] new_inverter_row_eq index_1_split_sep [OF True]
    using True by simp
next
  case False
  assume len: "length cells = 7"
  show ?thesis
    unfolding process_row_new [OF len] new_inverter_row_eq index_1_split_no_sep [OF False]
    using False by simp
qed

lemma int_cell_in_range:
  "i < length cells \<Longrightarrow> int_cell B cells i unit = try_warning (int_text B (cells ! i) unit) 0"
  by (simp add: int_cell_def index_def bind_exc_def)

lemma float_cell_in_range:
  "i < length cells \<Longrightarrow>
   float_cell B cells i unit = try_warning (float_text B (cells ! i) unit) (PyInt 0)"
  by (simp add: float_cell_def index_def bind_exc_def)

lemma time_cell_in_range:
  "i < length cells \<Longrightarrow> time_cell B cells i = try_warning (time_text B (cells ! i)) (PyTimeInt 0)"
  by (simp add: time_cell_def index_def bind_exc_def)

lemma find_labeled_value_absent:
  "label \<notin> fst ` set (tbl_ths t) \<Longrightarrow> find_labeled_value (Some t) label = Inl AttributeError"
proof -
  assume a: "label \<notin> fst ` set (tbl_ths t)"
  have "List.find (\<lambda>th. fst th = label) (tbl_ths t) = None"
    using a by (force simp: find_None_iff)
  then show ?thesis
    by (simp add: find_labeled_value_def bind_exc_def body_table_def)
qed

lemma find_labeled_value_no_td:
  "List.find (\<lambda>th. fst th = label) (tbl_ths t) = Some (label, None) \<Longrightarrow>
   find_labeled_value (Some t) label = Inl AttributeError"
  by (simp add: find_labeled_value_def bind_exc_def body_table_def)

lemma reconstruct_returns: "\<exists>ecu' l. reconstruct B ecu rows = (Inr ecu', l)"
proof -
  obtain ecu' c l where "rows_loop B ecu None rows = (Inr (ecu', c), l)"
    using rows_loop_returns by blast
  then show ?thesis by (simp add: reconstruct_def)
qed

lemma rows_loop_continuations_skip:
  assumes "\<forall>r \<in> set conts. r = [] \<or> (length r \<noteq> 7 \<and> CHR ''-'' \<in> set (str_strip (r ! 0)))"
  shows "\<exists>l. rows_loop B ecu (Some c) conts =
           (Inr (ecu, Some (c\<lparr>inv_solarmodules := inv_solarmodules c @
              map (\<lambda>r. SolarModule_init (str_split (str_strip (r ! 0)) CHR ''-'' ! 1)
                         (fst (int_cell B r 1 ''W'')) (fst (int_cell B r 2 ''V''))
                         (fst (int_cell B r 3 ''V''))) (filter (\<lambda>r. r \<noteq> []) conts)\<rparr>)), l)"
  using assms
proof (induction conts arbitrary: c)
  case Nil
  show ?case by simp
next
  case (Cons r rest)
  from Cons.prems have
    rest: "\<forall>r \<in> set rest. r = [] \<or> (length r \<noteq> 7 \<and> CHR ''-'' \<in> set (str_strip (r ! 0)))"
    by simp
  show ?case
  proof (cases "r = []")
    case True
    from Cons.IH [OF rest, of c] True show ?thesis
      by (auto simp: process_row_empty)
  next
    case ne: False
    let ?m = "SolarModule_init (str_split (str_strip (r ! 0)) CHR ''-'' ! 1)
                (fst (int_cell B r 1 ''W'')) (fst (int_cell B r 2 ''V''))
                (fst (int_cell B r 3 ''V''))"
    let ?c1 = "c\<lparr>inv_solarmodules := inv_solarmodules c @ [?m]\<rparr>"
    from Cons.prems ne have r: "length r \<noteq> 7" "CHR ''-'' \<in> set (str_strip (r ! 0))"
      by simp_all
    have "\<exists>l. process_row B ecu (Some c) r = (Inr (ecu, Some ?c1), l)"
      unfolding process_row_open [OF ne r(1)] continuation_row_eq index_1_split_sep [OF r(2)]
      by simp
    then obtain l1 where s: "process_row B ecu (Some c) r = (Inr (ecu, Some ?c1), l1)"
      by blast
    from Cons.IH [OF rest, of ?c1] obtain l2 where
      "rows_loop B ecu (Some ?c1) rest =
         (Inr (ecu, Some (?c1\<lparr>inv_solarmodules := inv_solarmodules ?c1 @
            map (\<lambda>r. SolarModule_init (str_split (str_strip (r ! 0)) CHR ''-'' ! 1)
                       (fst (int_cell B r 1 ''W'')) (fst (int_cell B r 2 ''V''))
                       (fst (int_cell B r 3 ''V''))) (filter (\<lambda>r. r \<noteq> []) rest)\<rparr>)), l2)"
      by blast
    with s ne show ?thesis by simp
  qed
qed

lemma process_row_closed_list:
  "process_row B ecu cur r = (Inr (ecu1, c1), l1) \<Longrightarrow>
   \<exists>ys. ecu_inverters ecu1 = ecu_inverters ecu @ ys"
proof (cases "r = []")
  case True
  assume "process_row B ecu cur r = (Inr (ecu1, c1), l1)"
  with True show ?thesis by (simp add: process_row_empty)
next
  case ne: False
  assume a: "process_row B ecu cur r = (Inr (ecu1, c1), l1)"
  show ?thesis
  proof (cases "length r = 7")
    case True
    with a have "ecu1 = flush_open ecu cur"
      by (simp add: process_row_new new_inverter_row_eq)
    then show ?thesis
      by (cases cur) (simp_all add: flush_open_def add_inverter_def)
  next
    case False
    with a ne show ?thesis
      by (cases cur) (auto simp: process_row_closed process_row_open)
  qed
qed

lemma rows_loop_closed_list:
  "rows_loop B ecu cur rows = (Inr (ecu', c'), l) \<Longrightarrow>
   \<exists>ys. ecu_inverters ecu' = ecu_inverters ecu @ ys"
proof (induction rows arbitrary: ecu cur l)
  case Nil
  then show ?case by simp
next
  case (Cons r rest)
  obtain ecu1 c1 l1 where s: "process_row B ecu cur r = (Inr (ecu1, c1), l1)"
    using process_row_returns by blast
  then obtain ys where y: "ecu_inverters ecu1 = ecu_inverters ecu @ ys"
    using process_row_closed_list by blast
  from Cons.prems s have "rows_loop B ecu1 c1 rest = (Inr (ecu', c'), snd (rows_loop B ecu1 c1 rest))"
    by (cases "rows_loop B ecu1 c1 rest") simp
  from Cons.IH [OF this] obtain zs where "ecu_inverters ecu' = ecu_inverters ecu1 @ zs"
    by blast
  with y show ?case by simp
qed

lemma reconstruct_appends:
  assumes "reconstruct B E0 rows = (Inr E, l)"
  shows "\<exists>later. ecu_inverters E = ecu_inverters E0 @ later
           \<and> map inv_id later =
               map (\<lambda>r. hd (str_split (str_strip (r ! 0)) CHR ''-''))
                 (filter (\<lambda>r. length r = 7) rows)"
proof -
  obtain ecu' c l' where s: "rows_loop B E0 None rows = (Inr (ecu', c), l')"
    and ids: "map inv_id (ecu_inverters (flush_open ecu' c)) =
         map inv_id (ecu_inverters (flush_open E0 None))
           @ map (\<lambda>r. hd (str_split (str_strip (r ! 0)) CHR ''-''))
               (filter (\<lambda>r. length r = 7) rows)"
    using rows_loop_inverter_ids [of B E0 None rows] by blast
  from s assms have E: "E = flush_open ecu' c" by (simp add: reconstruct_def flush_open_def)
  obtain ys where ys: "ecu_inverters ecu' = ecu_inverters E0 @ ys"
    using rows_loop_closed_list [OF s] by blast
  have "\<exists>later. ecu_inverters E = ecu_inverters E0 @ later"
    unfolding E using ys by (cases c) (simp_all add: flush_open_def add_inverter_def)
  then obtain later where l: "ecu_inverters E = ecu_inverters E0 @ later" by blast
  from ids have "map inv_id (ecu_inverters E0 @ later) =
         map inv_id (ecu_inverters E0)
           @ map (\<lambda>r. hd (str_split (str_strip (r ! 0)) CHR ''-''))
               (filter (\<lambda>r. length r = 7) rows)"
    unfolding E [symmetric] l by (simp add: flush_open_None)
  then have "map inv_id later =
               map (\<lambda>r. hd (str_split (str_strip (r ! 0)) CHR ''-''))
                 (filter (\<lambda>r. length r = 7) rows)" by simp
  with l show ?thesis by blast
qed

lemma process_row_new_flushed:
  "length p = 7 \<Longrightarrow>
   process_row B ecu (Some iv) p = process_row B (add_inverter ecu iv) None p"
  by (simp add: process_row_new new_inverter_row_eq flush_open_def)

lemma rows_loop_open_boundary:
  assumes "post = [] \<or> length (hd post) = 7"
    and "rows_loop B ecu (Some iv) post = (Inr (ecu', c), l)"
  shows "reconstruct B (add_inverter ecu iv) post = (Inr (flush_open ecu' c), l)"
proof (cases post)
  case Nil
  with assms(2) show ?thesis by (auto simp: reconstruct_def flush_open_def)
next
  case (Cons p ps)
  with assms(1) have len: "length p = 7" by simp
  have "rows_loop B (add_inverter ecu iv) None (p # ps) = rows_loop B ecu (Some iv) (p # ps)"
    by (simp add: process_row_new_flushed [OF len])
  with assms(2) Cons show ?thesis by (simp add: reconstruct_def)
qed

section \<open>Coercion of a cell text\<close>

text \<open>
  C8. Reading an integer with the unit \<^verbatim>\<open>W\<close>: the text \<^verbatim>\<open>123 W\<close> gives 123 and writes
  no log entry; the text \<^verbatim>\<open>bad\<close> gives 0 and writes one warning, and nothing is raised.
  This holds for the summary field (lines 94-102, which remove \<^verbatim>\<open>" W"\<close>) and for a
  realtime cell (lines 172-178, which remove \<^verbatim>\<open>"W"\<close> and strip).
\<close>

theorem int_coercion_unit_W:
  "(find_labeled_value doc ''Last System Power'' = Inr ''123 W''
      \<longrightarrow> summary_power B doc = (123, []))
   \<and> (find_labeled_value doc ''Last System Power'' = Inr ''bad''
      \<longrightarrow> summary_power B doc = (0, [LogWarning ValueError]))
   \<and> (index cells i = Inr ''123 W'' \<longrightarrow> int_cell B cells i ''W'' = (123, []))
   \<and> (index cells i = Inr ''bad'' \<longrightarrow> int_cell B cells i ''W'' = (0, [LogWarning ValueError]))"
proof -
  have a: "py_int B (str_replace ''123 W'' '' W'' '''') = Inr 123" by code_simp
  have b: "py_int B (str_replace ''bad'' '' W'' '''') = Inl ValueError" by code_simp
  have c: "int_text B ''123 W'' ''W'' = Inr 123" by code_simp
  have d: "int_text B ''bad'' ''W'' = Inl ValueError" by code_simp
  show ?thesis
    by (simp add: summary_power_def int_cell_def bind_exc_def try_warning_def a b c d)
qed

theorem int_coercion_unit_W_witness:
  "summary_power example_builtins (Some \<lparr>tbl_ths = [(''Last System Power'', Some ''123 W'')], tbl_trs = []\<rparr>)
     = (123, [])
   \<and> summary_power example_builtins (Some \<lparr>tbl_ths = [(''Last System Power'', Some ''bad'')], tbl_trs = []\<rparr>)
     = (0, [LogWarning ValueError])
   \<and> int_cell example_builtins [''806000012345-1'', ''123 W''] 1 ''W'' = (123, [])
   \<and> int_cell example_builtins [''806000012345-1'', ''bad''] 1 ''W'' = (0, [LogWarning ValueError])"
proof -
  have h1: "find_labeled_value
              (Some \<lparr>tbl_ths = [(''Last System Power'', Some ''123 W'')], tbl_trs = []\<rparr>)
              ''Last System Power'' = Inr ''123 W''"
    by (simp add: find_labeled_value_def bind_exc_def body_table_def)
  have h2: "find_labeled_value
              (Some \<lparr>tbl_ths = [(''Last System Power'', Some ''bad'')], tbl_trs = []\<rparr>)
              ''Last System Power'' = Inr ''bad''"
    by (simp add: find_labeled_value_def bind_exc_def body_table_def)
  have h3: "index [''806000012345-1'', ''123 W''] 1 = Inr ''123 W''"
    by (simp add: index_def)
  have h4: "index [''806000012345-1'', ''bad''] 1 = Inr ''bad''"
    by (simp add: index_def)
  show ?thesis
    using h1 h2 h3 h4
      int_coercion_unit_W
        [where B = example_builtins
           and doc = "Some \<lparr>tbl_ths = [(''Last System Power'', Some ''123 W'')], tbl_trs = []\<rparr>"
           and cells = "[''806000012345-1'', ''123 W'']" and i = 1]
      int_coercion_unit_W
        [where B = example_builtins
           and doc = "Some \<lparr>tbl_ths = [(''Last System Power'', Some ''bad'')], tbl_trs = []\<rparr>"
           and cells = "[''806000012345-1'', ''bad'']" and i = 1]
    by simp
qed

section \<open>A continuation row before any inverter row\<close>

text \<open>
  C4. When the first row that has cells is not a row of 7 cells (only rows without cells
  come before it), the row is dropped: nothing is raised, no inverter is open after it, the
  snapshot and its inverter list are unchanged, no log entry is written, and the whole
  reconstruction gives what it gives on the rows after it.
\<close>

theorem continuation_before_inverter_dropped:
  assumes "\<forall>r \<in> set pre. r = []" and "cells \<noteq> []" and "length cells \<noteq> 7"
  shows "process_row B ecu None cells = (Inr (ecu, None), [])
         \<and> rows_loop B ecu None (pre @ [cells]) = (Inr (ecu, None), [])
         \<and> reconstruct B ecu (pre @ cells # rest) = reconstruct B ecu rest"
proof -
  have p: "process_row B ecu None cells = (Inr (ecu, None), [])"
    using assms by (simp add: process_row_closed)
  have e: "rows_loop B ecu None pre = (Inr (ecu, None), [])"
    using assms(1) by (rule rows_loop_skip_empty)
  have one: "rows_loop B ecu None (pre @ [cells]) = (Inr (ecu, None), [])"
    using rows_loop_append [OF e, of "[cells]"] p by simp
  have "rows_loop B ecu None (pre @ cells # rest) = rows_loop B ecu None rest"
    using rows_loop_append [OF e, of "cells # rest"] p by (simp add: case_prod_unfold)
  then have "reconstruct B ecu (pre @ cells # rest) = reconstruct B ecu rest"
    by (simp add: reconstruct_def)
  with p one show ?thesis by simp
qed

theorem continuation_before_inverter_dropped_witness:
  "[''806000012345-2'', ''120 W'', ''35 V'', ''229 V''] \<noteq> []
   \<and> length [''806000012345-2'', ''120 W'', ''35 V'', ''229 V''] \<noteq> 7
   \<and> process_row example_builtins empty_ecu None
         [''806000012345-2'', ''120 W'', ''35 V'', ''229 V''] = (Inr (empty_ecu, None), [])
   \<and> reconstruct example_builtins empty_ecu
         [[], [''806000012345-2'', ''120 W'', ''35 V'', ''229 V'']] = (Inr empty_ecu, [])"
  using continuation_before_inverter_dropped
    [of "[[]]" "[''806000012345-2'', ''120 W'', ''35 V'', ''229 V'']"
        example_builtins empty_ecu "[]"]
  by (simp add: reconstruct_def flush_open_def)

section \<open>Flush before open\<close>

text \<open>
  C1, as the code has it. For every row sequence:
  \<^item> a row of 7 cells met while an inverter \<open>c\<close> is open appends \<open>c\<close>, as it is, to the
    snapshot's inverter list and opens a new inverter, the same one the row would open with
    no inverter open;
  \<^item> the loop raises nothing, and after it the inverter still open, if any, is appended
    once; the inverters of the result are, in order, those already in the snapshot and one
    for each row of 7 cells;
  \<^item> two consecutive rows of 7 cells give two inverters, the first appended when the second
    row is read, the second after the loop. Each has exactly one module when the first
    cell of its row, stripped, contains \<^verbatim>\<open>-\<close>, and no module otherwise (line 229 raises
    IndexError, which lines 231-232 log).
  The last item is where the claim as stated fails: it promises one module for every row.
\<close>

theorem flush_before_open:
  "(length cells = 7 \<longrightarrow>
      (\<exists>c' l. process_row B ecu (Some c) cells = (Inr (add_inverter ecu c, Some c'), l)
         \<and> fst (process_row B ecu None cells) = Inr (ecu, Some c')))
   \<and> (\<exists>ecu' cur l. rows_loop B ecu None rows = (Inr (ecu', cur), l)
         \<and> reconstruct B ecu rows = (Inr (flush_open ecu' cur), l)
         \<and> ecu_inverters (flush_open ecu' cur) =
             ecu_inverters ecu' @ (case cur of None \<Rightarrow> [] | Some c \<Rightarrow> [c])
         \<and> map inv_id (ecu_inverters (flush_open ecu' cur)) =
             map inv_id (ecu_inverters ecu)
               @ map (\<lambda>r. hd (str_split (str_strip (r ! 0)) CHR ''-''))
                   (filter (\<lambda>r. length r = 7) rows))
   \<and> (length r1 = 7 \<and> length r2 = 7 \<longrightarrow>
        (\<exists>i1 i2 l1 l2.
           process_row B ecu None r1 = (Inr (ecu, Some i1), l1)
           \<and> process_row B ecu (Some i1) r2 = (Inr (add_inverter ecu i1, Some i2), l2)
           \<and> reconstruct B ecu [r1, r2] =
               (Inr (ecu\<lparr>ecu_inverters := ecu_inverters ecu @ [i1, i2]\<rparr>), l1 @ l2)
           \<and> length (inv_solarmodules i1) =
               (if CHR ''-'' \<in> set (str_strip (r1 ! 0)) then 1 else 0)
           \<and> length (inv_solarmodules i2) =
               (if CHR ''-'' \<in> set (str_strip (r2 ! 0)) then 1 else 0)))"
proof (intro conjI impI)
  assume len: "length cells = 7"
  from new_row_module_count [OF len, of B ecu "Some c" ecu None]
  show "\<exists>c' l. process_row B ecu (Some c) cells = (Inr (add_inverter ecu c, Some c'), l)
         \<and> fst (process_row B ecu None cells) = Inr (ecu, Some c')"
    by (auto simp: flush_open_def)
next
  obtain ecu' cur l where s: "rows_loop B ecu None rows = (Inr (ecu', cur), l)"
    and ids: "map inv_id (ecu_inverters (flush_open ecu' cur)) =
         map inv_id (ecu_inverters (flush_open ecu None))
           @ map (\<lambda>r. hd (str_split (str_strip (r ! 0)) CHR ''-''))
               (filter (\<lambda>r. length r = 7) rows)"
    using rows_loop_inverter_ids [of B ecu None rows] by blast
  have "reconstruct B ecu rows = (Inr (flush_open ecu' cur), l)"
    using s by (simp add: reconstruct_def flush_open_def)
  moreover have "ecu_inverters (flush_open ecu' cur) =
             ecu_inverters ecu' @ (case cur of None \<Rightarrow> [] | Some c \<Rightarrow> [c])"
    by (cases cur) (simp_all add: flush_open_def add_inverter_def)
  ultimately show "\<exists>ecu' cur l. rows_loop B ecu None rows = (Inr (ecu', cur), l)
         \<and> reconstruct B ecu rows = (Inr (flush_open ecu' cur), l)
         \<and> ecu_inverters (flush_open ecu' cur) =
             ecu_inverters ecu' @ (case cur of None \<Rightarrow> [] | Some c \<Rightarrow> [c])
         \<and> map inv_id (ecu_inverters (flush_open ecu' cur)) =
             map inv_id (ecu_inverters ecu)
               @ map (\<lambda>r. hd (str_split (str_strip (r ! 0)) CHR ''-''))
                   (filter (\<lambda>r. length r = 7) rows)"
    using s ids by (auto simp: flush_open_None)
next
  assume "length r1 = 7 \<and> length r2 = 7"
  then have len1: "length r1 = 7" and len2: "length r2 = 7" by simp_all
  obtain i1 l1 where s1: "process_row B ecu None r1 = (Inr (ecu, Some i1), l1)"
    and m1: "length (inv_solarmodules i1) =
               (if CHR ''-'' \<in> set (str_strip (r1 ! 0)) then 1 else 0)"
    using new_row_module_count [OF len1, of B ecu None ecu None]
    by (auto simp: flush_open_None)
  obtain i2 l2 where s2: "process_row B ecu (Some i1) r2 = (Inr (add_inverter ecu i1, Some i2), l2)"
    and m2: "length (inv_solarmodules i2) =
               (if CHR ''-'' \<in> set (str_strip (r2 ! 0)) then 1 else 0)"
    using new_row_module_count [OF len2, of B ecu "Some i1" ecu None]
    by (auto simp: flush_open_def)
  have "reconstruct B ecu [r1, r2] =
               (Inr (ecu\<lparr>ecu_inverters := ecu_inverters ecu @ [i1, i2]\<rparr>), l1 @ l2)"
    using s1 s2 by (simp add: reconstruct_def flush_open_def add_inverter_def)
  with s1 s2 m1 m2 show "\<exists>i1 i2 l1 l2.
           process_row B ecu None r1 = (Inr (ecu, Some i1), l1)
           \<and> process_row B ecu (Some i1) r2 = (Inr (add_inverter ecu i1, Some i2), l2)
           \<and> reconstruct B ecu [r1, r2] =
               (Inr (ecu\<lparr>ecu_inverters := ecu_inverters ecu @ [i1, i2]\<rparr>), l1 @ l2)
           \<and> length (inv_solarmodules i1) =
               (if CHR ''-'' \<in> set (str_strip (r1 ! 0)) then 1 else 0)
           \<and> length (inv_solarmodules i2) =
               (if CHR ''-'' \<in> set (str_strip (r2 ! 0)) then 1 else 0)"
    by blast
qed

theorem flush_before_open_witness:
  "length [''806000012345-1'', ''123 W'', ''36 V'', ''50.0 Hz'', ''230 V'', ''25'',
            ''2024-01-01 12:00:00''] = 7
   \<and> length [''806000067890-1'', ''120 W'', ''35 V'', ''50.0 Hz'', ''229 V'', ''24'',
            ''2024-01-01 12:00:00''] = 7
   \<and> (\<exists>i1 i2 l.
         reconstruct example_builtins empty_ecu
           [[''806000012345-1'', ''123 W'', ''36 V'', ''50.0 Hz'', ''230 V'', ''25'',
             ''2024-01-01 12:00:00''],
            [''806000067890-1'', ''120 W'', ''35 V'', ''50.0 Hz'', ''229 V'', ''24'',
             ''2024-01-01 12:00:00'']]
           = (Inr (empty_ecu\<lparr>ecu_inverters := ecu_inverters empty_ecu @ [i1, i2]\<rparr>), l)
         \<and> length (inv_solarmodules i1) = 1 \<and> length (inv_solarmodules i2) = 1)"
proof -
  let ?r1 = "[''806000012345-1'', ''123 W'', ''36 V'', ''50.0 Hz'', ''230 V'', ''25'',
              ''2024-01-01 12:00:00'']"
  let ?r2 = "[''806000067890-1'', ''120 W'', ''35 V'', ''50.0 Hz'', ''229 V'', ''24'',
              ''2024-01-01 12:00:00'']"
  have h: "length ?r1 = 7 \<and> length ?r2 = 7" by simp
  have d1: "CHR ''-'' \<in> set (str_strip (?r1 ! 0))" by (simp add: str_strip_def is_space_def)
  have d2: "CHR ''-'' \<in> set (str_strip (?r2 ! 0))" by (simp add: str_strip_def is_space_def)
  from flush_before_open [of ?r2 example_builtins empty_ecu _ "[?r1, ?r2]" ?r1 ?r2] h
  obtain i1 i2 l1 l2 where
    "reconstruct example_builtins empty_ecu [?r1, ?r2] =
       (Inr (empty_ecu\<lparr>ecu_inverters := ecu_inverters empty_ecu @ [i1, i2]\<rparr>), l1 @ l2)"
    and "length (inv_solarmodules i1) = (if CHR ''-'' \<in> set (str_strip (?r1 ! 0)) then 1 else 0)"
    and "length (inv_solarmodules i2) = (if CHR ''-'' \<in> set (str_strip (?r2 ! 0)) then 1 else 0)"
    by blast
  with d1 d2 have "\<exists>i1 i2 l.
         reconstruct example_builtins empty_ecu [?r1, ?r2]
           = (Inr (empty_ecu\<lparr>ecu_inverters := ecu_inverters empty_ecu @ [i1, i2]\<rparr>), l)
         \<and> length (inv_solarmodules i1) = 1 \<and> length (inv_solarmodules i2) = 1"
    by (simp del: One_nat_def) blast
  with h show ?thesis by blast
qed

text \<open>
  Two rows of 7 cells whose first cells have no \<^verbatim>\<open>-\<close>: two inverters, with no module
  each, where the claim as stated promises one module each.
\<close>

theorem two_inverter_rows_counterexample:
  "snapshot_module_counts
     (reconstruct example_builtins empty_ecu
        [[''806000012345'', ''123 W'', ''36 V'', ''50.0 Hz'', ''230 V'', ''25'',
          ''2024-01-01 12:00:00''],
         [''806000067890'', ''120 W'', ''35 V'', ''50.0 Hz'', ''229 V'', ''24'',
          ''2024-01-01 12:00:00'']]) = [0, 0]"
  by code_simp

section \<open>The shape of a row decides its role and its columns\<close>

text \<open>
  C3. A row of exactly 7 cells is a new-inverter row: nothing is raised, the inverter open
  before is flushed, and the inverter opened has its frequency, temperature and report
  timestamp from cells 3, 5 and 6 and, when the first cell has a part after \<^verbatim>\<open>-\<close>, one
  module whose power, dc voltage and ac voltage come from cells 1, 2 and 4. A row with
  cells, but not 7 of them, read while an inverter is open, is a continuation row: it
  adds to that inverter one module whose power, dc voltage and ac voltage are the guarded
  reads of cells 1, 2 and 3 (the read of a cell that is there is the coercion of its text).
  Each value is the coerced text of the cell, or the default when the coercion raises.
\<close>

theorem row_shape_layout:
  "(\<exists>l. process_row B ecu cur [c0, c1, c2, c3, c4, c5, c6] =
      (Inr (flush_open ecu cur,
            Some \<lparr>inv_id = hd (str_split (str_strip c0) CHR ''-''),
                  inv_freq = fst (try_warning (float_text B c3 ''Hz'') (PyInt 0)),
                  inv_temperature = fst (try_warning (int_text B c5 degree_C) 0),
                  inv_reportingtime = fst (try_warning (time_text B c6) (PyTimeInt 0)),
                  inv_solarmodules =
                    (case index (str_split (str_strip c0) CHR ''-'') 1 of
                       Inl e \<Rightarrow> []
                     | Inr p1 \<Rightarrow>
                         [\<lparr>sm_id = p1,
                           sm_power = fst (try_warning (int_text B c1 ''W'') 0),
                           sm_dcvoltage = fst (try_warning (int_text B c2 ''V'') 0),
                           sm_gridvoltage = fst (try_warning (int_text B c4 ''V'') 0)\<rparr>])\<rparr>), l))
   \<and> (cells \<noteq> [] \<and> length cells \<noteq> 7 \<longrightarrow>
        (\<exists>l. process_row B ecu (Some c) cells =
           (Inr (ecu,
                 Some (c\<lparr>inv_solarmodules := inv_solarmodules c @
                   (case index (str_split (str_strip (cells ! 0)) CHR ''-'') 1 of
                      Inl e \<Rightarrow> []
                    | Inr p1 \<Rightarrow>
                        [\<lparr>sm_id = p1,
                          sm_power = fst (int_cell B cells 1 ''W''),
                          sm_dcvoltage = fst (int_cell B cells 2 ''V''),
                          sm_gridvoltage = fst (int_cell B cells 3 ''V'')\<rparr>])\<rparr>)), l))
        \<and> (\<forall>i < length cells. \<forall>unit.
              fst (int_cell B cells i unit) = fst (try_warning (int_text B (cells ! i) unit) 0)))"
proof (intro conjI impI allI)
  have len: "length [c0, c1, c2, c3, c4, c5, c6] = 7" by simp
  show "\<exists>l. process_row B ecu cur [c0, c1, c2, c3, c4, c5, c6] =
      (Inr (flush_open ecu cur,
            Some \<lparr>inv_id = hd (str_split (str_strip c0) CHR ''-''),
                  inv_freq = fst (try_warning (float_text B c3 ''Hz'') (PyInt 0)),
                  inv_temperature = fst (try_warning (int_text B c5 degree_C) 0),
                  inv_reportingtime = fst (try_warning (time_text B c6) (PyTimeInt 0)),
                  inv_solarmodules =
                    (case index (str_split (str_strip c0) CHR ''-'') 1 of
                       Inl e \<Rightarrow> []
                     | Inr p1 \<Rightarrow>
                         [\<lparr>sm_id = p1,
                           sm_power = fst (try_warning (int_text B c1 ''W'') 0),
                           sm_dcvoltage = fst (try_warning (int_text B c2 ''V'') 0),
                           sm_gridvoltage = fst (try_warning (int_text B c4 ''V'') 0)\<rparr>])\<rparr>), l)"
    unfolding process_row_new [OF len] new_inverter_row_eq
    by (simp add: int_cell_in_range float_cell_in_range time_cell_in_range SolarModule_init_def
          split: sum.splits)
next
  assume a: "cells \<noteq> [] \<and> length cells \<noteq> 7"
  then have ne: "cells \<noteq> []" and n7: "length cells \<noteq> 7" by simp_all
  show "\<exists>l. process_row B ecu (Some c) cells =
           (Inr (ecu,
                 Some (c\<lparr>inv_solarmodules := inv_solarmodules c @
                   (case index (str_split (str_strip (cells ! 0)) CHR ''-'') 1 of
                      Inl e \<Rightarrow> []
                    | Inr p1 \<Rightarrow>
                        [\<lparr>sm_id = p1,
                          sm_power = fst (int_cell B cells 1 ''W''),
                          sm_dcvoltage = fst (int_cell B cells 2 ''V''),
                          sm_gridvoltage = fst (int_cell B cells 3 ''V'')\<rparr>])\<rparr>)), l)"
    unfolding process_row_open [OF ne n7] continuation_row_eq
    by (simp add: SolarModule_init_def split: sum.splits)
next
  fix i unit
  assume "i < length cells"
  then show "fst (int_cell B cells i unit) = fst (try_warning (int_text B (cells ! i) unit) 0)"
    by (simp add: int_cell_in_range)
qed

theorem row_shape_layout_witness:
  "[''806000012345-2'', ''120 W'', ''35 V'', ''229 V''] \<noteq> []
   \<and> length [''806000012345-2'', ''120 W'', ''35 V'', ''229 V''] \<noteq> 7
   \<and> (\<exists>l. process_row example_builtins empty_ecu None
         [''806000012345-1'', ''123 W'', ''36 V'', ''50.0 Hz'', ''230 V'', ''25'',
          ''2024-01-01 12:00:00''] =
         (Inr (empty_ecu,
               Some \<lparr>inv_id = ''806000012345'', inv_freq = PyFloat ''50.0'',
                     inv_temperature = 25,
                     inv_reportingtime = PyDatetime ''2024-01-01 12:00:00'',
                     inv_solarmodules =
                       [\<lparr>sm_id = ''1'', sm_power = 123, sm_dcvoltage = 36,
                         sm_gridvoltage = 230\<rparr>]\<rparr>), l))
   \<and> (\<exists>l. process_row example_builtins empty_ecu
         (Some (InverterData_init ''806000012345'' (PyFloat ''50.0'') 25 (PyTimeInt 0)))
         [''806000012345-2'', ''120 W'', ''35 V'', ''229 V''] =
         (Inr (empty_ecu,
               Some \<lparr>inv_id = ''806000012345'', inv_freq = PyFloat ''50.0'',
                     inv_temperature = 25, inv_reportingtime = PyTimeInt 0,
                     inv_solarmodules =
                       [\<lparr>sm_id = ''2'', sm_power = 120, sm_dcvoltage = 35,
                         sm_gridvoltage = 229\<rparr>]\<rparr>), l))"
proof -
  let ?r = "[''806000012345-2'', ''120 W'', ''35 V'', ''229 V'']"
  have h: "?r \<noteq> [] \<and> length ?r \<noteq> 7" by simp
  have a0: "hd (str_split (str_strip ''806000012345-1'') CHR ''-'') = ''806000012345''"
    by code_simp
  have a1: "index (str_split (str_strip ''806000012345-1'') CHR ''-'') 1 = Inr ''1''"
    by code_simp
  have a2: "try_warning (int_text example_builtins ''123 W'' ''W'') 0 = (123, [])" by code_simp
  have a3: "try_warning (int_text example_builtins ''36 V'' ''V'') 0 = (36, [])" by code_simp
  have a4: "try_warning (int_text example_builtins ''230 V'' ''V'') 0 = (230, [])" by code_simp
  have a5: "try_warning (int_text example_builtins ''25'' degree_C) 0 = (25, [])" by code_simp
  have a6: "try_warning (float_text example_builtins ''50.0 Hz'' ''Hz'') (PyInt 0)
              = (PyFloat ''50.0'', [])" by code_simp
  have a7: "try_warning (time_text example_builtins ''2024-01-01 12:00:00'') (PyTimeInt 0)
              = (PyDatetime ''2024-01-01 12:00:00'', [])" by code_simp
  have b1: "index (str_split (str_strip (?r ! 0)) CHR ''-'') 1 = Inr ''2''" by code_simp
  have b2: "int_cell example_builtins ?r 1 ''W'' = (120, [])" by code_simp
  have b3: "int_cell example_builtins ?r 2 ''V'' = (35, [])" by code_simp
  have b4: "int_cell example_builtins ?r 3 ''V'' = (229, [])" by code_simp
  from row_shape_layout
    [of example_builtins empty_ecu None "''806000012345-1''" "''123 W''" "''36 V''"
        "''50.0 Hz''" "''230 V''" "''25''" "''2024-01-01 12:00:00''" ?r
        "InverterData_init ''806000012345'' (PyFloat ''50.0'') 25 (PyTimeInt 0)"]
  show ?thesis
    unfolding a0 a1 a2 a3 a4 a5 a6 a7 b1 b2 b3 b4
    using h by (simp add: flush_open_def InverterData_init_def)
qed

section \<open>A timestamp that does not parse\<close>

text \<open>
  C9. For a row of 7 cells whose last cell, stripped, is rejected by \<^verbatim>\<open>strptime\<close> with the
  format \<^verbatim>\<open>%Y-%m-%d %H:%M:%S\<close>: nothing is raised, a warning with the ValueError is
  logged, the inverter is opened with the int \<^verbatim>\<open>0\<close> as its report timestamp (the value that
  stands for an unset timestamp), and the rest of the row is processed as for any other
  row: the inverter open before is flushed, identity, frequency and temperature are read,
  and the embedded module is appended.
\<close>

theorem bad_timestamp_row:
  assumes "strptime B (str_strip c6) ''%Y-%m-%d %H:%M:%S'' = None"
  shows "\<exists>iv l. process_row B ecu cur [c0, c1, c2, c3, c4, c5, c6] =
             (Inr (flush_open ecu cur, Some iv), l)
           \<and> inv_reportingtime iv = PyTimeInt 0
           \<and> LogWarning ValueError \<in> set l
           \<and> inv_id iv = hd (str_split (str_strip c0) CHR ''-'')
           \<and> inv_freq iv = fst (try_warning (float_text B c3 ''Hz'') (PyInt 0))
           \<and> inv_temperature iv = fst (try_warning (int_text B c5 degree_C) 0)
           \<and> inv_solarmodules iv =
               (case index (str_split (str_strip c0) CHR ''-'') 1 of
                  Inl e \<Rightarrow> []
                | Inr p1 \<Rightarrow>
                    [SolarModule_init p1 (fst (try_warning (int_text B c1 ''W'') 0))
                       (fst (try_warning (int_text B c2 ''V'') 0))
                       (fst (try_warning (int_text B c4 ''V'') 0))])"
proof -
  have len: "length [c0, c1, c2, c3, c4, c5, c6] = 7" by simp
  have t: "time_cell B [c0, c1, c2, c3, c4, c5, c6] 6 = (PyTimeInt 0, [LogWarning ValueError])"
    using assms
    by (simp add: time_cell_in_range time_text_def raise_none_def map_exc_def try_warning_def)
  show ?thesis
    unfolding process_row_new [OF len] new_inverter_row_eq t
    by (simp add: int_cell_in_range float_cell_in_range split: sum.splits)
qed

theorem bad_timestamp_row_witness:
  "strptime example_builtins (str_strip ''n/a'') ''%Y-%m-%d %H:%M:%S'' = None
   \<and> (\<exists>iv l. process_row example_builtins empty_ecu None
         [''806000012345-1'', ''123 W'', ''36 V'', ''50.0 Hz'', ''230 V'', ''25'', ''n/a''] =
           (Inr (empty_ecu, Some iv), l)
        \<and> inv_reportingtime iv = PyTimeInt 0
        \<and> LogWarning ValueError \<in> set l
        \<and> inv_id iv = ''806000012345''
        \<and> inv_freq iv = PyFloat ''50.0''
        \<and> inv_temperature iv = 25
        \<and> inv_solarmodules iv =
            [\<lparr>sm_id = ''1'', sm_power = 123, sm_dcvoltage = 36, sm_gridvoltage = 230\<rparr>])"
proof -
  have h: "strptime example_builtins (str_strip ''n/a'') ''%Y-%m-%d %H:%M:%S'' = None"
    by code_simp
  have a0: "hd (str_split (str_strip ''806000012345-1'') CHR ''-'') = ''806000012345''"
    by code_simp
  have a1: "index (str_split (str_strip ''806000012345-1'') CHR ''-'') 1 = Inr ''1''"
    by code_simp
  have a2: "try_warning (int_text example_builtins ''123 W'' ''W'') 0 = (123, [])" by code_simp
  have a3: "try_warning (int_text example_builtins ''36 V'' ''V'') 0 = (36, [])" by code_simp
  have a4: "try_warning (int_text example_builtins ''230 V'' ''V'') 0 = (230, [])" by code_simp
  have a5: "try_warning (int_text example_builtins ''25'' degree_C) 0 = (25, [])" by code_simp
  have a6: "try_warning (float_text example_builtins ''50.0 Hz'' ''Hz'') (PyInt 0)
              = (PyFloat ''50.0'', [])" by code_simp
  from bad_timestamp_row [OF h, of empty_ecu None "''806000012345-1''" "''123 W''" "''36 V''"
        "''50.0 Hz''" "''230 V''" "''25''"]
  show ?thesis
    unfolding a0 a1 a2 a3 a4 a5 a6
    using h by (simp add: flush_open_def SolarModule_init_def)
qed

section \<open>An inverter row whose identity has no separator\<close>

text \<open>
  C10. There are inputs on which the snapshot holds an inverter without modules: for a row
  of 7 cells whose first cell, stripped, has no \<^verbatim>\<open>-\<close>, the inverter is opened under the
  whole first cell as identity, \<^verbatim>\<open>id_parts[1]\<close> raises IndexError, which is logged as an
  error and goes no further, the module is not appended, and the inverter is flushed into
  the snapshot's list with no module.
\<close>

theorem inverter_without_separator:
  assumes "length cells = 7" and "CHR ''-'' \<notin> set (str_strip (cells ! 0))"
  shows "\<exists>iv l. process_row B ecu cur cells = (Inr (flush_open ecu cur, Some iv), l)
           \<and> inv_id iv = str_strip (cells ! 0)
           \<and> inv_solarmodules iv = []
           \<and> LogError IndexError \<in> set l
           \<and> fst (reconstruct B ecu [cells]) = Inr (add_inverter ecu iv)
           \<and> snapshot_module_counts (reconstruct B ecu [cells]) =
               module_counts (ecu_inverters ecu) @ [0]"
proof -
  let ?iv = "\<lparr>inv_id = str_strip (cells ! 0),
              inv_freq = fst (float_cell B cells 3 ''Hz''),
              inv_temperature = fst (int_cell B cells 5 degree_C),
              inv_reportingtime = fst (time_cell B cells 6),
              inv_solarmodules = []\<rparr>"
  have p: "\<exists>l. process_row B ecu cur cells = (Inr (flush_open ecu cur, Some ?iv), l)
             \<and> LogError IndexError \<in> set l" for ecu cur
    unfolding process_row_new [OF assms(1)] new_inverter_row_eq
      index_1_split_no_sep [OF assms(2)] hd_split_no_sep [OF assms(2)]
    by simp
  obtain l0 where "process_row B ecu None cells = (Inr (ecu, Some ?iv), l0)"
    using p [of ecu None] by (auto simp: flush_open_None)
  then have r: "reconstruct B ecu [cells] = (Inr (add_inverter ecu ?iv), l0)"
    by (simp add: reconstruct_def flush_open_def)
  have "snapshot_module_counts (reconstruct B ecu [cells]) =
               module_counts (ecu_inverters ecu) @ [0]"
    unfolding r by (simp add: snapshot_module_counts_def module_counts_def add_inverter_def)
  with p [of ecu cur] r show ?thesis by auto
qed

theorem inverter_without_separator_witness:
  "length [''806000012345'', ''123 W'', ''36 V'', ''50.0 Hz'', ''230 V'', ''25'',
            ''2024-01-01 12:00:00''] = 7
   \<and> CHR ''-'' \<notin> set (str_strip ''806000012345'')
   \<and> (\<exists>iv. fst (reconstruct example_builtins empty_ecu
                 [[''806000012345'', ''123 W'', ''36 V'', ''50.0 Hz'', ''230 V'', ''25'',
                   ''2024-01-01 12:00:00'']]) = Inr (add_inverter empty_ecu iv)
          \<and> inv_id iv = ''806000012345'' \<and> inv_solarmodules iv = [])
   \<and> snapshot_module_counts
         (reconstruct example_builtins empty_ecu
            [[''806000012345'', ''123 W'', ''36 V'', ''50.0 Hz'', ''230 V'', ''25'',
              ''2024-01-01 12:00:00'']]) = [0]"
proof -
  let ?r = "[''806000012345'', ''123 W'', ''36 V'', ''50.0 Hz'', ''230 V'', ''25'',
             ''2024-01-01 12:00:00'']"
  have h1: "length ?r = 7" by simp
  have s: "str_strip (?r ! 0) = ''806000012345''" by code_simp
  have h2: "CHR ''-'' \<notin> set (str_strip (?r ! 0))" unfolding s by simp
  have s': "str_strip ''806000012345'' = ''806000012345''" by code_simp
  have e: "module_counts (ecu_inverters empty_ecu) = []" by code_simp
  from inverter_without_separator [OF h1 h2, of example_builtins empty_ecu None]
  show ?thesis unfolding e s s' by auto
qed

section \<open>A summary page without the identity\<close>

text \<open>
  C5. When the summary page has a table in which the label \<^verbatim>\<open>ECU ID\<close> is absent, or
  in which the first header cell with that label has no value cell after it, the call
  returns \<^verbatim>\<open>None\<close>, not a snapshot; the only request made is the one for the summary
  page, so the realtime-data page is neither requested nor processed, and nothing is
  logged.
\<close>

theorem missing_ecu_id_fails:
  assumes "net (''http://'' @ address) = Inr (Some t)"
    and "''ECU ID'' \<notin> fst ` set (tbl_ths t)
         \<or> List.find (\<lambda>th. fst th = ''ECU ID'') (tbl_ths t) = Some (''ECU ID'', None)"
  shows "returned (get_ecu_data B net address alias) = None
         \<and> requested (get_ecu_data B net address alias) = [''http://'' @ address]
         \<and> logged (get_ecu_data B net address alias) = []"
proof -
  have "find_labeled_value (Some t) ''ECU ID'' = Inl AttributeError"
    using assms(2) find_labeled_value_absent find_labeled_value_no_td by blast
  then have "extract_summary B address alias (Some t) = (Inl AttributeError, [])"
    by (simp add: extract_summary_def)
  then show ?thesis
    using assms(1) by (simp add: get_ecu_data_def get_ecu_data_try_def Let_def)
qed

theorem missing_ecu_id_fails_witness:
  "''ECU ID'' \<notin> fst ` set [(''Lifetime generation'', Some ''1234.5 kWh'')]
   \<and> returned (get_ecu_data example_builtins
         (\<lambda>u. Inr (Some \<lparr>tbl_ths = [(''Lifetime generation'', Some ''1234.5 kWh'')],
                           tbl_trs = [[''806000012345-1'', ''123 W'']]\<rparr>))
         ''192.168.1.10'' ''roof'') = None
   \<and> requested (get_ecu_data example_builtins
         (\<lambda>u. Inr (Some \<lparr>tbl_ths = [(''Lifetime generation'', Some ''1234.5 kWh'')],
                           tbl_trs = [[''806000012345-1'', ''123 W'']]\<rparr>))
         ''192.168.1.10'' ''roof'') = [''http://192.168.1.10'']
   \<and> List.find (\<lambda>th. fst th = ''ECU ID'') [(''ECU ID'', None), (''ECU ID'', Some ''216'')]
       = Some (''ECU ID'', None)
   \<and> returned (get_ecu_data example_builtins
         (\<lambda>u. Inr (Some \<lparr>tbl_ths = [(''ECU ID'', None), (''ECU ID'', Some ''216'')],
                           tbl_trs = []\<rparr>))
         ''192.168.1.10'' ''roof'') = None"
proof -
  let ?t1 = "\<lparr>tbl_ths = [(''Lifetime generation'', Some ''1234.5 kWh'')],
              tbl_trs = [[''806000012345-1'', ''123 W'']]\<rparr>"
  let ?t2 = "\<lparr>tbl_ths = [(''ECU ID'', None), (''ECU ID'', Some ''216'')],
              tbl_trs = ([] :: row list)\<rparr>"
  have h1: "''ECU ID'' \<notin> fst ` set (tbl_ths ?t1)" by simp
  have h2: "List.find (\<lambda>th. fst th = ''ECU ID'') (tbl_ths ?t2) = Some (''ECU ID'', None)"
    by simp
  have n1: "(\<lambda>u. Inr (Some ?t1)) (''http://'' @ ''192.168.1.10'') = Inr (Some ?t1)" by simp
  have n2: "(\<lambda>u. Inr (Some ?t2)) (''http://'' @ ''192.168.1.10'') = Inr (Some ?t2)" by simp
  from missing_ecu_id_fails [of "\<lambda>u. Inr (Some ?t1)" "''192.168.1.10''" ?t1
         example_builtins "''roof''", OF n1 disjI1 [OF h1]]
       missing_ecu_id_fails [of "\<lambda>u. Inr (Some ?t2)" "''192.168.1.10''" ?t2
         example_builtins "''roof''", OF n2 disjI2 [OF h2]]
       h1 h2
  show ?thesis by simp
qed

section \<open>Success or one failure value\<close>

text \<open>
  C6. Whatever the inputs, \<^verbatim>\<open>get_ecu_data\<close> raises nothing: every exception that leaves
  the body of its outer \<^verbatim>\<open>try\<close>, whichever it is, becomes the one value \<^verbatim>\<open>None\<close>. It
  returns \<^verbatim>\<open>None\<close> exactly when a request raised, the identity could not be read, or the
  realtime page has no table; otherwise it returns a snapshot, and that snapshot is the
  summary record of the first page with the inverters reconstructed from all rows of the
  second page. The value returned on failure does not depend on the cause.
\<close>

theorem get_ecu_data_binary_outcome:
  "(\<forall>e. returned (get_ecu_data_try B net address alias) = Inl e
        \<longrightarrow> returned (get_ecu_data B net address alias) = None)
   \<and> (returned (get_ecu_data B net address alias) = None
        \<longleftrightarrow> (\<exists>e. net (''http://'' @ address) = Inl e)
            \<or> (\<exists>doc e. net (''http://'' @ address) = Inr doc
                  \<and> find_labeled_value doc ''ECU ID'' = Inl e)
            \<or> (\<exists>e. net (''http://'' @ address @ ''/index.php/realtimedata'') = Inl e)
            \<or> net (''http://'' @ address @ ''/index.php/realtimedata'') = Inr None)
   \<and> (\<forall>ecu. returned (get_ecu_data B net address alias) = Some ecu
        \<longleftrightarrow> (\<exists>doc ecu0 l0 t l1.
               net (''http://'' @ address) = Inr doc
               \<and> extract_summary B address alias doc = (Inr ecu0, l0)
               \<and> net (''http://'' @ address @ ''/index.php/realtimedata'') = Inr (Some t)
               \<and> reconstruct B ecu0 (tbl_trs t) = (Inr ecu, l1)))"
proof (intro conjI allI impI)
  fix e
  assume "returned (get_ecu_data_try B net address alias) = Inl e"
  then show "returned (get_ecu_data B net address alias) = None"
    by (simp add: get_ecu_data_def Let_def)
next
  show "returned (get_ecu_data B net address alias) = None
        \<longleftrightarrow> (\<exists>e. net (''http://'' @ address) = Inl e)
            \<or> (\<exists>doc e. net (''http://'' @ address) = Inr doc
                  \<and> find_labeled_value doc ''ECU ID'' = Inl e)
            \<or> (\<exists>e. net (''http://'' @ address @ ''/index.php/realtimedata'') = Inl e)
            \<or> net (''http://'' @ address @ ''/index.php/realtimedata'') = Inr None"
  proof (cases "net (''http://'' @ address)")
    case (Inl e)
    then show ?thesis by (simp add: get_ecu_data_def get_ecu_data_try_def Let_def)
  next
    case (Inr doc)
    show ?thesis
    proof (cases "find_labeled_value doc ''ECU ID''")
      case (Inl e)
      then have "extract_summary B address alias doc = (Inl e, [])"
        by (simp add: extract_summary_def)
      with Inr Inl show ?thesis
        by (simp add: get_ecu_data_def get_ecu_data_try_def Let_def)
    next
      case i: (Inr i)
      then obtain ecu0 l0 where x: "extract_summary B address alias doc = (Inr ecu0, l0)"
        by (simp add: extract_summary_def Let_def case_prod_unfold)
      show ?thesis
      proof (cases "net (''http://'' @ address @ ''/index.php/realtimedata'')")
        case (Inl e)
        with Inr i x show ?thesis
          by (simp add: get_ecu_data_def get_ecu_data_try_def Let_def bind_exc_def)
      next
        case rt: (Inr d)
        show ?thesis
        proof (cases d)
          case None
          with Inr i x rt show ?thesis
            by (simp add: get_ecu_data_def get_ecu_data_try_def Let_def bind_exc_def
                  body_table_def)
        next
          case (Some t)
          obtain ecu' l1 where "reconstruct B ecu0 (tbl_trs t) = (Inr ecu', l1)"
            using reconstruct_returns by blast
          with Inr i x rt Some show ?thesis
            by (simp add: get_ecu_data_def get_ecu_data_try_def Let_def bind_exc_def
                  body_table_def)
        qed
      qed
    qed
  qed
next
  fix ecu
  show "returned (get_ecu_data B net address alias) = Some ecu
        \<longleftrightarrow> (\<exists>doc ecu0 l0 t l1.
               net (''http://'' @ address) = Inr doc
               \<and> extract_summary B address alias doc = (Inr ecu0, l0)
               \<and> net (''http://'' @ address @ ''/index.php/realtimedata'') = Inr (Some t)
               \<and> reconstruct B ecu0 (tbl_trs t) = (Inr ecu, l1))"
  proof (cases "net (''http://'' @ address)")
    case (Inl e)
    then show ?thesis by (simp add: get_ecu_data_def get_ecu_data_try_def Let_def)
  next
    case (Inr doc)
    obtain r0 l0 where x: "extract_summary B address alias doc = (r0, l0)"
      by (cases "extract_summary B address alias doc")
    show ?thesis
    proof (cases r0)
      case (Inl e)
      with Inr x show ?thesis
        by (simp add: get_ecu_data_def get_ecu_data_try_def Let_def)
    next
      case e0: (Inr ecu0)
      show ?thesis
      proof (cases "net (''http://'' @ address @ ''/index.php/realtimedata'')")
        case (Inl e)
        with Inr x e0 show ?thesis
          by (simp add: get_ecu_data_def get_ecu_data_try_def Let_def bind_exc_def)
      next
        case rt: (Inr d)
        show ?thesis
        proof (cases d)
          case None
          with Inr x e0 rt show ?thesis
            by (simp add: get_ecu_data_def get_ecu_data_try_def Let_def bind_exc_def
                  body_table_def)
        next
          case (Some t)
          obtain ecu' l1 where "reconstruct B ecu0 (tbl_trs t) = (Inr ecu', l1)"
            using reconstruct_returns by blast
          with Inr x e0 rt Some show ?thesis
            by (simp add: get_ecu_data_def get_ecu_data_try_def Let_def bind_exc_def
                  body_table_def)
        qed
      qed
    qed
  qed
qed

theorem get_ecu_data_binary_outcome_witness:
  "returned (get_ecu_data_try example_builtins (\<lambda>u. Inl ClientError) ''192.168.1.10'' ''roof'')
     = Inl ClientError
   \<and> returned (get_ecu_data example_builtins (\<lambda>u. Inl ClientError) ''192.168.1.10'' ''roof'')
     = None
   \<and> (\<exists>ecu. returned (get_ecu_data example_builtins
          (\<lambda>u. Inr (Some \<lparr>tbl_ths = [(''ECU ID'', Some ''216000012345'')],
                            tbl_trs = [[''806000012345-1'', ''123 W'']]\<rparr>))
          ''192.168.1.10'' ''roof'') = Some ecu)"
proof -
  let ?t = "\<lparr>tbl_ths = [(''ECU ID'', Some ''216000012345'')],
             tbl_trs = [[''806000012345-1'', ''123 W'']]\<rparr>"
  have f: "returned (get_ecu_data_try example_builtins (\<lambda>u. Inl ClientError)
             ''192.168.1.10'' ''roof'') = Inl ClientError"
    by (simp add: get_ecu_data_try_def)
  have a: "returned (get_ecu_data example_builtins (\<lambda>u. Inl ClientError)
             ''192.168.1.10'' ''roof'') = None"
    using get_ecu_data_binary_outcome
      [of example_builtins "\<lambda>u. Inl ClientError" "''192.168.1.10''" "''roof''"] f
    by blast
  have g0: "find_labeled_value (Some ?t) ''ECU ID'' = Inr ''216000012345''" by code_simp
  obtain ecu0 l0 where
    x: "extract_summary example_builtins ''192.168.1.10'' ''roof'' (Some ?t) = (Inr ecu0, l0)"
    by (simp add: extract_summary_def g0 Let_def case_prod_unfold)
  obtain ecu l1 where r: "reconstruct example_builtins ecu0 (tbl_trs ?t) = (Inr ecu, l1)"
    using reconstruct_returns by blast
  have "returned (get_ecu_data example_builtins (\<lambda>u. Inr (Some ?t))
          ''192.168.1.10'' ''roof'') = Some ecu"
    using get_ecu_data_binary_outcome
      [of example_builtins "\<lambda>u. Inr (Some ?t)" "''192.168.1.10''" "''roof''"] x r
    by blast
  with f a show ?thesis by blast
qed

section \<open>An inverter row and its continuation rows\<close>

text \<open>
  C2. In a well-formed table (the first cell of every row that has cells, stripped,
  contains \<^verbatim>\<open>-\<close>), take a row of 7 cells and the rows after it up to the next row of 7
  cells or the end of the table; among them \<open>n\<close> rows have cells (rows without cells are
  skipped). Whatever rows come before and after, the snapshot's inverter list is: the
  inverters of the rows before, then one inverter for this group, then one inverter for
  each row of 7 cells after it. The inverter of the group has exactly \<open>n + 1\<close> modules in
  row order: the module of the 7-cell row (power, dc and ac voltage from cells 1, 2 and 4),
  then one module for each continuation row (cells 1, 2 and 3). With \<open>n = 0\<close> it has the
  one embedded module, with \<open>n = 2\<close> it has three.
\<close>

theorem inverter_row_with_continuations:
  assumes "length r = 7" and "CHR ''-'' \<in> set (str_strip (r ! 0))"
    and "\<forall>c \<in> set conts. c = [] \<or> (length c \<noteq> 7 \<and> CHR ''-'' \<in> set (str_strip (c ! 0)))"
    and "post = [] \<or> length (hd post) = 7"
  shows "\<exists>Epre lpre iv Eall lall later.
           reconstruct B ecu pre = (Inr Epre, lpre)
           \<and> reconstruct B ecu (pre @ r # conts @ post) = (Inr Eall, lall)
           \<and> ecu_inverters Eall = ecu_inverters Epre @ [iv] @ later
           \<and> map inv_id later =
               map (\<lambda>p. hd (str_split (str_strip (p ! 0)) CHR ''-''))
                 (filter (\<lambda>p. length p = 7) post)
           \<and> inv_id iv = hd (str_split (str_strip (r ! 0)) CHR ''-'')
           \<and> length (inv_solarmodules iv) = length (filter (\<lambda>c. c \<noteq> []) conts) + 1
           \<and> inv_solarmodules iv =
               SolarModule_init (str_split (str_strip (r ! 0)) CHR ''-'' ! 1)
                 (fst (int_cell B r 1 ''W'')) (fst (int_cell B r 2 ''V''))
                 (fst (int_cell B r 4 ''V''))
               # map (\<lambda>c. SolarModule_init (str_split (str_strip (c ! 0)) CHR ''-'' ! 1)
                            (fst (int_cell B c 1 ''W'')) (fst (int_cell B c 2 ''V''))
                            (fst (int_cell B c 3 ''V''))) (filter (\<lambda>c. c \<noteq> []) conts)"
proof -
  let ?m = "SolarModule_init (str_split (str_strip (r ! 0)) CHR ''-'' ! 1)
              (fst (int_cell B r 1 ''W'')) (fst (int_cell B r 2 ''V'')) (fst (int_cell B r 4 ''V''))"
  let ?ms = "map (\<lambda>c. SolarModule_init (str_split (str_strip (c ! 0)) CHR ''-'' ! 1)
                        (fst (int_cell B c 1 ''W'')) (fst (int_cell B c 2 ''V''))
                        (fst (int_cell B c 3 ''V''))) (filter (\<lambda>c. c \<noteq> []) conts)"
  obtain ecu1 c1 l1 where p: "rows_loop B ecu None pre = (Inr (ecu1, c1), l1)"
    using rows_loop_returns by blast
  let ?Epre = "flush_open ecu1 c1"
  have rp: "reconstruct B ecu pre = (Inr ?Epre, l1)"
    using p by (simp add: reconstruct_def)
  have "\<exists>c' l2. process_row B ecu1 c1 r = (Inr (?Epre, Some c'), l2)
          \<and> inv_id c' = hd (str_split (str_strip (r ! 0)) CHR ''-'')
          \<and> inv_solarmodules c' = [?m]"
    unfolding process_row_new [OF assms(1)] new_inverter_row_eq index_1_split_sep [OF assms(2)]
    by simp
  then obtain c' l2 where s: "process_row B ecu1 c1 r = (Inr (?Epre, Some c'), l2)"
    and id1: "inv_id c' = hd (str_split (str_strip (r ! 0)) CHR ''-'')"
    and m1: "inv_solarmodules c' = [?m]" by blast
  let ?iv = "c'\<lparr>inv_solarmodules := inv_solarmodules c' @ ?ms\<rparr>"
  obtain l3 where t: "rows_loop B ?Epre (Some c') conts = (Inr (?Epre, Some ?iv), l3)"
    using rows_loop_continuations_skip [OF assms(3), of B ?Epre c'] by blast
  obtain ecu4 c4 l4 where u: "rows_loop B ?Epre (Some ?iv) post = (Inr (ecu4, c4), l4)"
    using rows_loop_returns by blast
  let ?Eall = "flush_open ecu4 c4"
  have group: "rows_loop B ecu1 c1 (r # conts) = (Inr (?Epre, Some ?iv), l2 @ l3)"
    using s t by simp
  have "rows_loop B ecu1 c1 ((r # conts) @ post) = (Inr (ecu4, c4), (l2 @ l3) @ l4)"
    using rows_loop_append [OF group, of post] u by simp
  then have "rows_loop B ecu None (pre @ (r # conts) @ post) = (Inr (ecu4, c4), l1 @ (l2 @ l3) @ l4)"
    using rows_loop_append [OF p, of "(r # conts) @ post"] by simp
  then have whole: "reconstruct B ecu (pre @ r # conts @ post) = (Inr ?Eall, l1 @ (l2 @ l3) @ l4)"
    by (simp add: reconstruct_def)
  have "reconstruct B (add_inverter ?Epre ?iv) post = (Inr ?Eall, l4)"
    using rows_loop_open_boundary [OF assms(4) u] .
  from reconstruct_appends [OF this] obtain later where
    la: "ecu_inverters ?Eall = ecu_inverters (add_inverter ?Epre ?iv) @ later"
    and li: "map inv_id later =
               map (\<lambda>p. hd (str_split (str_strip (p ! 0)) CHR ''-''))
                 (filter (\<lambda>p. length p = 7) post)" by blast
  from la have la': "ecu_inverters ?Eall = ecu_inverters ?Epre @ [?iv] @ later"
    by (simp add: add_inverter_def)
  have i1: "inv_id ?iv = hd (str_split (str_strip (r ! 0)) CHR ''-'')" using id1 by simp
  have i2: "inv_solarmodules ?iv = ?m # ?ms" using m1 by simp
  have i3: "length (inv_solarmodules ?iv) = length (filter (\<lambda>c. c \<noteq> []) conts) + 1"
    using m1 by simp
  from rp whole la' li i1 i2 i3 show ?thesis by blast
qed

theorem inverter_row_with_continuations_witness:
  "length [''806000012345-1'', ''123 W'', ''36 V'', ''50.0 Hz'', ''230 V'', ''25'',
            ''2024-01-01 12:00:00''] = 7
   \<and> CHR ''-'' \<in> set (str_strip ''806000012345-1'')
   \<and> length [''806000012345-2'', ''120 W'', ''35 V'', ''229 V''] \<noteq> 7
   \<and> CHR ''-'' \<in> set (str_strip ''806000012345-2'')
   \<and> length [''806000012345-3'', ''118 W'', ''34 V'', ''228 V''] \<noteq> 7
   \<and> CHR ''-'' \<in> set (str_strip ''806000012345-3'')
   \<and> (\<exists>iv Eall lall later.
         reconstruct example_builtins empty_ecu
           [[],
            [''806000012345-1'', ''123 W'', ''36 V'', ''50.0 Hz'', ''230 V'', ''25'',
             ''2024-01-01 12:00:00''],
            [''806000012345-2'', ''120 W'', ''35 V'', ''229 V''],
            [''806000012345-3'', ''118 W'', ''34 V'', ''228 V''],
            [''806000067890-1'', ''120 W'', ''35 V'', ''50.0 Hz'', ''229 V'', ''24'',
             ''2024-01-01 12:00:00'']] = (Inr Eall, lall)
         \<and> ecu_inverters Eall = [iv] @ later
         \<and> map inv_id later = [''806000067890'']
         \<and> inv_id iv = ''806000012345''
         \<and> length (inv_solarmodules iv) = 3)
   \<and> (\<exists>iv Eall lall.
         reconstruct example_builtins empty_ecu
           [[''806000012345-1'', ''123 W'', ''36 V'', ''50.0 Hz'', ''230 V'', ''25'',
             ''2024-01-01 12:00:00'']] = (Inr Eall, lall)
         \<and> ecu_inverters Eall = [iv]
         \<and> length (inv_solarmodules iv) = 1)"
proof -
  let ?r = "[''806000012345-1'', ''123 W'', ''36 V'', ''50.0 Hz'', ''230 V'', ''25'',
             ''2024-01-01 12:00:00'']"
  let ?c2 = "[''806000012345-2'', ''120 W'', ''35 V'', ''229 V'']"
  let ?c3 = "[''806000012345-3'', ''118 W'', ''34 V'', ''228 V'']"
  let ?p = "[''806000067890-1'', ''120 W'', ''35 V'', ''50.0 Hz'', ''229 V'', ''24'',
             ''2024-01-01 12:00:00'']"
  have h1: "length ?r = 7" by simp
  have s1: "str_strip ''806000012345-1'' = ''806000012345-1''" by code_simp
  have s2: "str_strip ''806000012345-2'' = ''806000012345-2''" by code_simp
  have s3: "str_strip ''806000012345-3'' = ''806000012345-3''" by code_simp
  have h2: "CHR ''-'' \<in> set (str_strip (?r ! 0))" by (simp add: s1)
  have h3: "\<forall>c \<in> set [?c2, ?c3].
              c = [] \<or> (length c \<noteq> 7 \<and> CHR ''-'' \<in> set (str_strip (c ! 0)))"
    by (simp add: s2 s3)
  have h3': "\<forall>c \<in> set ([] :: row list).
              c = [] \<or> (length c \<noteq> 7 \<and> CHR ''-'' \<in> set (str_strip (c ! 0)))"
    by simp
  have h4: "[?p] = [] \<or> length (hd [?p]) = 7" by simp
  have h4': "([] :: row list) = [] \<or> length (hd ([] :: row list)) = 7" by simp
  have pre: "reconstruct example_builtins empty_ecu [[]] = (Inr empty_ecu, [])"
    by (simp add: reconstruct_def process_row_empty flush_open_def)
  have pre': "reconstruct example_builtins empty_ecu [] = (Inr empty_ecu, [])"
    by (simp add: reconstruct_def flush_open_def)
  have e: "ecu_inverters empty_ecu = []" by (simp add: empty_ecu_def EcuData_init_def)
  have i0: "hd (str_split (str_strip (?r ! 0)) CHR ''-'') = ''806000012345''" by code_simp
  have i1: "hd (str_split (str_strip (?p ! 0)) CHR ''-'') = ''806000067890''" by code_simp
  from inverter_row_with_continuations
         [OF h1 h2 h3 h4, of example_builtins empty_ecu "[[]]"]
  obtain Epre lpre iv Eall lall later where
    a1: "reconstruct example_builtins empty_ecu [[]] = (Inr Epre, lpre)"
    and a2: "reconstruct example_builtins empty_ecu ([[]] @ ?r # [?c2, ?c3] @ [?p])
               = (Inr Eall, lall)"
    and a3: "ecu_inverters Eall = ecu_inverters Epre @ [iv] @ later"
    and a4: "map inv_id later =
               map (\<lambda>p. hd (str_split (str_strip (p ! 0)) CHR ''-''))
                 (filter (\<lambda>p. length p = 7) [?p])"
    and a5: "inv_id iv = hd (str_split (str_strip (?r ! 0)) CHR ''-'')"
    and a6: "length (inv_solarmodules iv) = length (filter (\<lambda>c. c \<noteq> []) [?c2, ?c3]) + 1"
    by blast
  from a1 pre have "Epre = empty_ecu" by simp
  with a3 e have b3: "ecu_inverters Eall = [iv] @ later" by simp
  from a4 i1 have b4: "map inv_id later = [''806000067890'']" by simp
  from a5 i0 have b5: "inv_id iv = ''806000012345''" by simp
  from a6 have b6: "length (inv_solarmodules iv) = 3" by simp
  from a2 have b2: "reconstruct example_builtins empty_ecu [[], ?r, ?c2, ?c3, ?p] = (Inr Eall, lall)"
    by simp
  have first: "\<exists>iv Eall lall later.
         reconstruct example_builtins empty_ecu [[], ?r, ?c2, ?c3, ?p] = (Inr Eall, lall)
         \<and> ecu_inverters Eall = [iv] @ later
         \<and> map inv_id later = [''806000067890'']
         \<and> inv_id iv = ''806000012345''
         \<and> length (inv_solarmodules iv) = 3"
    by (intro exI [where x = iv] exI [where x = Eall] exI [where x = lall]
          exI [where x = later] conjI b2 b3 b4 b5 b6)
  from inverter_row_with_continuations
         [OF h1 h2 h3' h4', of example_builtins empty_ecu "[]"]
  obtain Epre' lpre' iv' Eall' lall' later' where
    c1: "reconstruct example_builtins empty_ecu [] = (Inr Epre', lpre')"
    and c2: "reconstruct example_builtins empty_ecu ([] @ ?r # [] @ []) = (Inr Eall', lall')"
    and c3: "ecu_inverters Eall' = ecu_inverters Epre' @ [iv'] @ later'"
    and c4: "map inv_id later' =
               map (\<lambda>p. hd (str_split (str_strip (p ! 0)) CHR ''-''))
                 (filter (\<lambda>p. length p = 7) ([] :: row list))"
    and c6: "length (inv_solarmodules iv') =
               length (filter (\<lambda>c. c \<noteq> []) ([] :: row list)) + 1"
    by blast
  from c1 pre' have "Epre' = empty_ecu" by simp
  moreover from c4 have "later' = []" by simp
  ultimately have d3: "ecu_inverters Eall' = [iv']" using c3 e by simp
  from c6 have d6: "length (inv_solarmodules iv') = 1" by simp
  from c2 have d2: "reconstruct example_builtins empty_ecu [?r] = (Inr Eall', lall')" by simp
  have second: "\<exists>iv Eall lall.
         reconstruct example_builtins empty_ecu [?r] = (Inr Eall, lall)
         \<and> ecu_inverters Eall = [iv]
         \<and> length (inv_solarmodules iv) = 1"
    by (intro exI [where x = iv'] exI [where x = Eall'] exI [where x = lall'] conjI d2 d3 d6)
  have hyps: "length ?r = 7 \<and> CHR ''-'' \<in> set (str_strip ''806000012345-1'')
      \<and> length ?c2 \<noteq> 7 \<and> CHR ''-'' \<in> set (str_strip ''806000012345-2'')
      \<and> length ?c3 \<noteq> 7 \<and> CHR ''-'' \<in> set (str_strip ''806000012345-3'')"
    by (simp add: s1 s2 s3)
  from hyps first second show ?thesis by (intro conjI) (elim conjE, assumption)+
qed

section \<open>The summary fields are read independently\<close>

text \<open>
  C7. Whenever the identity is found, the summary extraction returns a record, whatever
  the six other fields are, and every field of the record depends only on the cell after
  its own label: it is the coerced text of that cell when the label has a value cell and
  the coercion returns, and its default otherwise (the int \<^verbatim>\<open>0\<close> for the lifetime
  generation, the power and the two counts, \<^verbatim>\<open>0.0\<close> for the daily energy, the empty
  string for the software version), with one warning logged for each field at its
  default. So a document in which exactly one of the six fields is missing or malformed
  gives the record with that field at its default and every other field read from the
  document.
\<close>

theorem summary_fields_independent:
  assumes "find_labeled_value doc ''ECU ID'' = Inr i"
  shows "extract_summary B address alias doc =
     (Inr \<lparr>ecu_id = i, ecu_alias = alias, ecu_address = address,
            ecu_power =
              (case bind_exc (find_labeled_value doc ''Last System Power'')
                      (\<lambda>txt. py_int B (str_replace txt '' W'' '''')) of
                 Inl e \<Rightarrow> 0 | Inr v \<Rightarrow> v),
            ecu_lifetimeGeneration =
              (case bind_exc (find_labeled_value doc ''Lifetime generation'')
                      (\<lambda>txt. raise_none (py_float B (str_replace txt '' kWh'' ''''))) of
                 Inl e \<Rightarrow> PyInt 0 | Inr v \<Rightarrow> PyFloat v),
            ecu_dailyEnergy =
              (case bind_exc (find_labeled_value doc ''Generation of Current Day'')
                      (\<lambda>txt. raise_none (py_float B (str_replace txt '' kWh'' ''''))) of
                 Inl e \<Rightarrow> PyFloat (float_zero B) | Inr v \<Rightarrow> PyFloat v),
            ecu_inverters = [],
            ecu_numberOfInverters =
              (case bind_exc (find_labeled_value doc ''Number of Inverters'') (py_int B) of
                 Inl e \<Rightarrow> 0 | Inr v \<Rightarrow> v),
            ecu_numberOfInvertersOnline =
              (case bind_exc (find_labeled_value doc ''Last Number of Inverters Online'')
                      (py_int B) of
                 Inl e \<Rightarrow> 0 | Inr v \<Rightarrow> v),
            ecu_softwareVersion =
              (case find_labeled_value doc ''Current Software Version'' of
                 Inl e \<Rightarrow> '''' | Inr v \<Rightarrow> v)\<rparr>,
      (case bind_exc (find_labeled_value doc ''Lifetime generation'')
              (\<lambda>txt. raise_none (py_float B (str_replace txt '' kWh'' ''''))) of
         Inl e \<Rightarrow> [LogWarning e] | Inr v \<Rightarrow> [])
      @ (case bind_exc (find_labeled_value doc ''Last System Power'')
                (\<lambda>txt. py_int B (str_replace txt '' W'' '''')) of
           Inl e \<Rightarrow> [LogWarning e] | Inr v \<Rightarrow> [])
      @ (case bind_exc (find_labeled_value doc ''Generation of Current Day'')
                (\<lambda>txt. raise_none (py_float B (str_replace txt '' kWh'' ''''))) of
           Inl e \<Rightarrow> [LogWarning e] | Inr v \<Rightarrow> [])
      @ (case bind_exc (find_labeled_value doc ''Number of Inverters'') (py_int B) of
           Inl e \<Rightarrow> [LogWarning e] | Inr v \<Rightarrow> [])
      @ (case bind_exc (find_labeled_value doc ''Last Number of Inverters Online'')
                (py_int B) of
           Inl e \<Rightarrow> [LogWarning e] | Inr v \<Rightarrow> [])
      @ (case find_labeled_value doc ''Current Software Version'' of
           Inl e \<Rightarrow> [LogWarning e] | Inr v \<Rightarrow> []))"
proof -
  let ?lg = "bind_exc (find_labeled_value doc ''Lifetime generation'')
               (\<lambda>txt. raise_none (py_float B (str_replace txt '' kWh'' '''')))"
  let ?en = "bind_exc (find_labeled_value doc ''Generation of Current Day'')
               (\<lambda>txt. raise_none (py_float B (str_replace txt '' kWh'' '''')))"
  have f1: "summary_lifetimegen B doc =
              ((case ?lg of Inl e \<Rightarrow> PyInt 0 | Inr v \<Rightarrow> PyFloat v),
               (case ?lg of Inl e \<Rightarrow> [LogWarning e] | Inr v \<Rightarrow> []))"
    by (simp add: summary_lifetimegen_def try_warning_def bind_exc_def map_exc_def
          split: sum.splits)
  have f3: "summary_energy B doc =
              ((case ?en of Inl e \<Rightarrow> PyFloat (float_zero B) | Inr v \<Rightarrow> PyFloat v),
               (case ?en of Inl e \<Rightarrow> [LogWarning e] | Inr v \<Rightarrow> []))"
    by (simp add: summary_energy_def try_warning_def bind_exc_def map_exc_def
          split: sum.splits)
  have f2: "summary_power B doc =
              ((case bind_exc (find_labeled_value doc ''Last System Power'')
                       (\<lambda>txt. py_int B (str_replace txt '' W'' '''')) of
                  Inl e \<Rightarrow> 0 | Inr v \<Rightarrow> v),
               (case bind_exc (find_labeled_value doc ''Last System Power'')
                       (\<lambda>txt. py_int B (str_replace txt '' W'' '''')) of
                  Inl e \<Rightarrow> [LogWarning e] | Inr v \<Rightarrow> []))"
    by (simp add: summary_power_def try_warning_def split: sum.splits)
  have f4: "summary_numberOfInverters B doc =
              ((case bind_exc (find_labeled_value doc ''Number of Inverters'') (py_int B) of
                  Inl e \<Rightarrow> 0 | Inr v \<Rightarrow> v),
               (case bind_exc (find_labeled_value doc ''Number of Inverters'') (py_int B) of
                  Inl e \<Rightarrow> [LogWarning e] | Inr v \<Rightarrow> []))"
    by (simp add: summary_numberOfInverters_def try_warning_def split: sum.splits)
  have f5: "summary_numberOfInvertersOnline B doc =
              ((case bind_exc (find_labeled_value doc ''Last Number of Inverters Online'')
                       (py_int B) of
                  Inl e \<Rightarrow> 0 | Inr v \<Rightarrow> v),
               (case bind_exc (find_labeled_value doc ''Last Number of Inverters Online'')
                       (py_int B) of
                  Inl e \<Rightarrow> [LogWarning e] | Inr v \<Rightarrow> []))"
    by (simp add: summary_numberOfInvertersOnline_def try_warning_def split: sum.splits)
  have f6: "summary_softwareVersion doc =
              ((case find_labeled_value doc ''Current Software Version'' of
                  Inl e \<Rightarrow> '''' | Inr v \<Rightarrow> v),
               (case find_labeled_value doc ''Current Software Version'' of
                  Inl e \<Rightarrow> [LogWarning e] | Inr v \<Rightarrow> []))"
    by (simp add: summary_softwareVersion_def try_warning_def split: sum.splits)
  show ?thesis
    unfolding extract_summary_def assms f1 f2 f3 f4 f5 f6
    by (simp add: EcuData_init_def)
qed

theorem summary_fields_independent_witness:
  "find_labeled_value
     (Some \<lparr>tbl_ths =
              [(''ECU ID'', Some ''216000012345''),
               (''Lifetime generation'', Some ''1234.5 kWh''),
               (''Last System Power'', Some ''n/a''),
               (''Generation of Current Day'', Some ''3.2 kWh''),
               (''Number of Inverters'', Some ''4''),
               (''Last Number of Inverters Online'', Some ''3''),
               (''Current Software Version'', Some ''V1.2'')],
            tbl_trs = []\<rparr>) ''ECU ID'' = Inr ''216000012345''
   \<and> extract_summary example_builtins ''192.168.1.10'' ''roof''
         (Some \<lparr>tbl_ths =
                  [(''ECU ID'', Some ''216000012345''),
                   (''Lifetime generation'', Some ''1234.5 kWh''),
                   (''Last System Power'', Some ''n/a''),
                   (''Generation of Current Day'', Some ''3.2 kWh''),
                   (''Number of Inverters'', Some ''4''),
                   (''Last Number of Inverters Online'', Some ''3''),
                   (''Current Software Version'', Some ''V1.2'')],
                tbl_trs = []\<rparr>) =
       (Inr \<lparr>ecu_id = ''216000012345'', ecu_alias = ''roof'', ecu_address = ''192.168.1.10'',
              ecu_power = 0, ecu_lifetimeGeneration = PyFloat ''1234.5'',
              ecu_dailyEnergy = PyFloat ''3.2'', ecu_inverters = [],
              ecu_numberOfInverters = 4, ecu_numberOfInvertersOnline = 3,
              ecu_softwareVersion = ''V1.2''\<rparr>,
        [LogWarning ValueError])
   \<and> extract_summary example_builtins ''192.168.1.10'' ''roof''
         (Some \<lparr>tbl_ths =
                  [(''ECU ID'', Some ''216000012345''),
                   (''Lifetime generation'', Some ''1234.5 kWh''),
                   (''Last System Power'', Some ''123 W''),
                   (''Generation of Current Day'', Some ''3.2 kWh''),
                   (''Last Number of Inverters Online'', Some ''3''),
                   (''Current Software Version'', Some ''V1.2'')],
                tbl_trs = []\<rparr>) =
       (Inr \<lparr>ecu_id = ''216000012345'', ecu_alias = ''roof'', ecu_address = ''192.168.1.10'',
              ecu_power = 123, ecu_lifetimeGeneration = PyFloat ''1234.5'',
              ecu_dailyEnergy = PyFloat ''3.2'', ecu_inverters = [],
              ecu_numberOfInverters = 0, ecu_numberOfInvertersOnline = 3,
              ecu_softwareVersion = ''V1.2''\<rparr>,
        [LogWarning AttributeError])"
proof -
  let ?doc = "Some \<lparr>tbl_ths =
                   [(''ECU ID'', Some ''216000012345''),
                    (''Lifetime generation'', Some ''1234.5 kWh''),
                    (''Last System Power'', Some ''n/a''),
                    (''Generation of Current Day'', Some ''3.2 kWh''),
                    (''Number of Inverters'', Some ''4''),
                    (''Last Number of Inverters Online'', Some ''3''),
                    (''Current Software Version'', Some ''V1.2'')],
                 tbl_trs = []\<rparr>"
  let ?doc2 = "Some \<lparr>tbl_ths =
                   [(''ECU ID'', Some ''216000012345''),
                    (''Lifetime generation'', Some ''1234.5 kWh''),
                    (''Last System Power'', Some ''123 W''),
                    (''Generation of Current Day'', Some ''3.2 kWh''),
                    (''Last Number of Inverters Online'', Some ''3''),
                    (''Current Software Version'', Some ''V1.2'')],
                 tbl_trs = []\<rparr>"
  have g0: "find_labeled_value ?doc ''ECU ID'' = Inr ''216000012345''" by code_simp
  have g1: "bind_exc (find_labeled_value ?doc ''Lifetime generation'')
              (\<lambda>txt. raise_none (py_float example_builtins (str_replace txt '' kWh'' '''')))
            = Inr ''1234.5''" by code_simp
  have g2: "bind_exc (find_labeled_value ?doc ''Last System Power'')
              (\<lambda>txt. py_int example_builtins (str_replace txt '' W'' ''''))
            = Inl ValueError" by code_simp
  have g3: "bind_exc (find_labeled_value ?doc ''Generation of Current Day'')
              (\<lambda>txt. raise_none (py_float example_builtins (str_replace txt '' kWh'' '''')))
            = Inr ''3.2''" by code_simp
  have g4: "bind_exc (find_labeled_value ?doc ''Number of Inverters'')
              (py_int example_builtins) = Inr 4" by code_simp
  have g5: "bind_exc (find_labeled_value ?doc ''Last Number of Inverters Online'')
              (py_int example_builtins) = Inr 3" by code_simp
  have g6: "find_labeled_value ?doc ''Current Software Version'' = Inr ''V1.2''" by code_simp
  have k0: "find_labeled_value ?doc2 ''ECU ID'' = Inr ''216000012345''" by code_simp
  have k1: "bind_exc (find_labeled_value ?doc2 ''Lifetime generation'')
              (\<lambda>txt. raise_none (py_float example_builtins (str_replace txt '' kWh'' '''')))
            = Inr ''1234.5''" by code_simp
  have k2: "bind_exc (find_labeled_value ?doc2 ''Last System Power'')
              (\<lambda>txt. py_int example_builtins (str_replace txt '' W'' ''''))
            = Inr 123" by code_simp
  have k3: "bind_exc (find_labeled_value ?doc2 ''Generation of Current Day'')
              (\<lambda>txt. raise_none (py_float example_builtins (str_replace txt '' kWh'' '''')))
            = Inr ''3.2''" by code_simp
  have k4: "bind_exc (find_labeled_value ?doc2 ''Number of Inverters'')
              (py_int example_builtins) = Inl AttributeError" by code_simp
  have k5: "bind_exc (find_labeled_value ?doc2 ''Last Number of Inverters Online'')
              (py_int example_builtins) = Inr 3" by code_simp
  have k6: "find_labeled_value ?doc2 ''Current Software Version'' = Inr ''V1.2''" by code_simp
  have w1: "extract_summary example_builtins ''192.168.1.10'' ''roof'' ?doc =
       (Inr \<lparr>ecu_id = ''216000012345'', ecu_alias = ''roof'', ecu_address = ''192.168.1.10'',
              ecu_power = 0, ecu_lifetimeGeneration = PyFloat ''1234.5'',
              ecu_dailyEnergy = PyFloat ''3.2'', ecu_inverters = [],
              ecu_numberOfInverters = 4, ecu_numberOfInvertersOnline = 3,
              ecu_softwareVersion = ''V1.2''\<rparr>,
        [LogWarning ValueError])"
    unfolding summary_fields_independent
      [OF g0, of example_builtins "''192.168.1.10''" "''roof''"] g1 g2 g3 g4 g5 g6
    by simp
  have w2: "extract_summary example_builtins ''192.168.1.10'' ''roof'' ?doc2 =
       (Inr \<lparr>ecu_id = ''216000012345'', ecu_alias = ''roof'', ecu_address = ''192.168.1.10'',
              ecu_power = 123, ecu_lifetimeGeneration = PyFloat ''1234.5'',
              ecu_dailyEnergy = PyFloat ''3.2'', ecu_inverters = [],
              ecu_numberOfInverters = 0, ecu_numberOfInvertersOnline = 3,
              ecu_softwareVersion = ''V1.2''\<rparr>,
        [LogWarning AttributeError])"
    unfolding summary_fields_independent
      [OF k0, of example_builtins "''192.168.1.10''" "''roof''"] k1 k2 k3 k4 k5 k6
    by simp
  from g0 w1 w2 show ?thesis by (intro conjI)
qed

end
